theory Spec2Isabelle
  imports Main "HOL-Library.AList"
begin

section \<open>The game actions of the party game, over an explicit database state\<close>

text \<open>
  The game logic lives in the hook \<open>useGameActions\<close>: ten asynchronous functions, each a
  short sequence of queries against the hosted database. The tables and their constraints
  are those of the SQL migration. A database state is a record of the tables, each table
  a list of rows in insertion order; every action takes the state and returns the new
  state together with what the JavaScript function returns.

  What is modelled of the database: primary keys, the \<open>UNIQUE\<close> constraints, the column
  defaults, the 32-bit range of the \<open>INTEGER\<close> columns, and the foreign keys between the
  public tables. A statement that violates a
  constraint changes nothing and yields an error object. Identifiers are the UUID strings
  the client sees. Not modelled: the row-level-security policies, the \<open>auth.users\<close>
  table (user ids are taken to be valid), timestamps, and the toast shown on failure.
\<close>

type_synonym uuid = string

datatype game_status = waiting | playing | finished

datatype round_status = topic_selection | vip_ranking | player_guessing | revealing | complete

record game_row =
  g_id :: uuid
  g_code :: string
  g_creator_id :: uuid
  g_current_vip_id :: "uuid option"
  g_status :: game_status
  g_target_score :: int
  g_points_per_correct :: int
  g_bonus_all_correct :: int
  g_penalty_all_wrong :: int

record player_row =
  gp_game_id :: uuid
  gp_user_id :: uuid
  gp_username :: string
  gp_score :: int

record round_row =
  r_id :: uuid
  r_game_id :: uuid
  r_round_number :: int
  r_topic_id :: uuid
  r_vip_id :: uuid
  r_status :: round_status
  r_reveal_index :: int

record ranking_row =
  rk_round_id :: uuid
  rk_item_id :: uuid
  rk_position :: int

record guess_row =
  gu_round_id :: uuid
  gu_user_id :: uuid
  gu_item_id :: uuid
  gu_position :: int
  gu_is_correct :: "bool option"

record item_row =
  ti_id :: uuid
  ti_topic_id :: uuid

record db =
  games :: "game_row list"
  game_players :: "player_row list"
  rounds :: "round_row list"
  rankings :: "ranking_row list"
  guesses :: "guess_row list"
  topics :: "uuid list"
  topic_items :: "item_row list"
  profiles :: "(uuid \<times> string) list"

text \<open>The argument type \<open>{ itemId: string; position: number }\<close> of a ranking or a guess;
  the positions the callers pass are list indices, whole numbers.\<close>

record placement =
  itemId :: uuid
  position :: int

subsection \<open>Query results\<close>

text \<open>
  \<open>.single()\<close> and \<open>.maybeSingle()\<close> both give \<open>data = null\<close> unless the query has
  exactly one row; they differ only in whether no row is reported as an error.
\<close>

fun single :: "'a list \<Rightarrow> 'a option" where
  "single [x] = Some x"
| "single _ = None"

definition game_by_id :: "db \<Rightarrow> uuid \<Rightarrow> game_row option" where
  "game_by_id d gid = single (filter (\<lambda>g. g_id g = gid) (games d))"

definition round_by_id :: "db \<Rightarrow> uuid \<Rightarrow> round_row option" where
  "round_by_id d rid = single (filter (\<lambda>r. r_id r = rid) (rounds d))"

definition player_of :: "db \<Rightarrow> uuid \<Rightarrow> uuid \<Rightarrow> player_row option" where
  "player_of d gid uid =
     single (filter (\<lambda>p. gp_game_id p = gid \<and> gp_user_id p = uid) (game_players d))"

definition rankings_of :: "db \<Rightarrow> uuid \<Rightarrow> ranking_row list" where
  "rankings_of d rid = filter (\<lambda>r. rk_round_id r = rid) (rankings d)"

definition guesses_of :: "db \<Rightarrow> uuid \<Rightarrow> guess_row list" where
  "guesses_of d rid = filter (\<lambda>g. gu_round_id g = rid) (guesses d)"

definition players_of_game :: "db \<Rightarrow> uuid \<Rightarrow> player_row list" where
  "players_of_game d gid = filter (\<lambda>p. gp_game_id p = gid) (game_players d)"

subsection \<open>submitGuess: the correctness flag\<close>

text \<open>
  \<open>rankings.find((r) => r.item_id === g.itemId)\<close> takes the first ranking row of the item;
  \<open>correctRanking?.position === g.position\<close> is false when there is none.
\<close>

definition is_correct_flag :: "ranking_row list \<Rightarrow> placement \<Rightarrow> bool" where
  "is_correct_flag rks g =
     (case List.find (\<lambda>r. rk_item_id r = itemId g) rks of
        None \<Rightarrow> False
      | Some r \<Rightarrow> rk_position r = position g)"

definition guessesWithCorrectness ::
    "ranking_row list \<Rightarrow> uuid \<Rightarrow> uuid \<Rightarrow> placement list \<Rightarrow> guess_row list" where
  "guessesWithCorrectness rks roundId userId gs =
     map (\<lambda>g. \<lparr>gu_round_id = roundId, gu_user_id = userId, gu_item_id = itemId g,
               gu_position = position g, gu_is_correct = Some (is_correct_flag rks g)\<rparr>) gs"

subsection \<open>calculateScores: the score updates\<close>

text \<open>
  \<open>scoreUpdates\<close> is a JavaScript object keyed by user id: an association list in
  insertion order, which is the order of \<open>Object.keys\<close> for UUID keys.
  \<open>AList.update\<close> overwrites a present key in place and appends an absent one.
  The column \<open>is_correct\<close> is nullable; \<open>null\<close> is falsy.
\<close>

definition truthy :: "bool option \<Rightarrow> bool" where
  "truthy b = (b = Some True)"

text \<open>One iteration of \<open>guesses.forEach\<close>: \<open>!scoreUpdates[u]\<close> holds for a missing
  entry and for the entry 0; the increment reads the entry just ensured.\<close>

definition tally_step :: "int \<Rightarrow> guess_row \<Rightarrow> (uuid \<times> int) list \<Rightarrow> (uuid \<times> int) list" where
  "tally_step ppc g acc =
     (let u = gu_user_id g;
          acc1 = (case map_of acc u of
                    None \<Rightarrow> AList.update u 0 acc
                  | Some v \<Rightarrow> if v = 0 then AList.update u 0 acc else acc)
      in if truthy (gu_is_correct g)
         then (case map_of acc1 u of
                 None \<Rightarrow> acc1
               | Some v \<Rightarrow> AList.update u (v + ppc) acc1)
         else acc1)"

definition tally :: "int \<Rightarrow> guess_row list \<Rightarrow> (uuid \<times> int) list" where
  "tally ppc gs = fold (tally_step ppc) gs []"

text \<open>One iteration of \<open>Object.keys(scoreUpdates).forEach\<close>.\<close>

definition bonus_step ::
    "game_row \<Rightarrow> guess_row list \<Rightarrow> uuid \<Rightarrow> (uuid \<times> int) list \<Rightarrow> (uuid \<times> int) list" where
  "bonus_step game gs userId acc =
     (let userGuesses = filter (\<lambda>g. gu_user_id g = userId) gs;
          allCorrect = list_all (\<lambda>g. truthy (gu_is_correct g)) userGuesses;
          allWrong = list_all (\<lambda>g. \<not> truthy (gu_is_correct g)) userGuesses
      in case map_of acc userId of
           None \<Rightarrow> acc
         | Some v \<Rightarrow>
             if allCorrect then AList.update userId (v + g_bonus_all_correct game) acc
             else if allWrong then AList.update userId (v + g_penalty_all_wrong game) acc
             else acc)"

definition scoreUpdates :: "game_row \<Rightarrow> guess_row list \<Rightarrow> (uuid \<times> int) list" where
  "scoreUpdates game gs =
     (let acc = tally (g_points_per_correct game) gs
      in fold (bonus_step game gs) (map fst acc) acc)"

text \<open>The scoring rule in words, as functions of the guess rows of a round: a player's
  guesses, how many of them are correct, and the bonus or penalty that goes with them.\<close>

definition entry :: "(uuid \<times> int) list \<Rightarrow> uuid \<Rightarrow> int" where
  "entry acc u = (case map_of acc u of None \<Rightarrow> 0 | Some v \<Rightarrow> v)"

definition guessesOfUser :: "guess_row list \<Rightarrow> uuid \<Rightarrow> guess_row list" where
  "guessesOfUser gs u = filter (\<lambda>g. gu_user_id g = u) gs"

definition correctCount :: "guess_row list \<Rightarrow> uuid \<Rightarrow> nat" where
  "correctCount gs u = length (filter (\<lambda>g. truthy (gu_is_correct g)) (guessesOfUser gs u))"

definition adjustment :: "game_row \<Rightarrow> guess_row list \<Rightarrow> uuid \<Rightarrow> int" where
  "adjustment game gs u =
     (if correctCount gs u = length (guessesOfUser gs u) then g_bonus_all_correct game
      else if correctCount gs u = 0 then g_penalty_all_wrong game
      else 0)"

subsection \<open>Statements against the tables\<close>

text \<open>
  A column of type \<open>INTEGER\<close> holds 32-bit values: a statement that would store a number
  outside that range is refused (integer out of range) and changes nothing.
\<close>

definition int4 :: "int \<Rightarrow> bool" where
  "int4 i = (- 2147483648 \<le> i \<and> i \<le> 2147483647)"

text \<open>
  An \<open>INSERT\<close> is one statement: it adds all its rows or, when a constraint is violated,
  none. \<open>games\<close>: primary key, \<open>code TEXT UNIQUE\<close>, four \<open>INTEGER\<close> settings.
\<close>

definition insert_game :: "db \<Rightarrow> game_row \<Rightarrow> db option" where
  "insert_game d g =
     (if g_id g \<in> set (map g_id (games d)) \<or> g_code g \<in> set (map g_code (games d))
         \<or> \<not> int4 (g_target_score g) \<or> \<not> int4 (g_points_per_correct g)
         \<or> \<not> int4 (g_bonus_all_correct g) \<or> \<not> int4 (g_penalty_all_wrong g)
      then None
      else Some (d\<lparr>games := games d @ [g]\<rparr>))"

text \<open>\<open>game_players\<close>: \<open>UNIQUE(game_id, user_id)\<close> and the foreign key to \<open>games\<close>.\<close>

definition insert_player :: "db \<Rightarrow> player_row \<Rightarrow> db option" where
  "insert_player d p =
     (if gp_game_id p \<notin> set (map g_id (games d))
         \<or> (gp_game_id p, gp_user_id p) \<in> set (map (\<lambda>q. (gp_game_id q, gp_user_id q)) (game_players d))
      then None
      else Some (d\<lparr>game_players := game_players d @ [p]\<rparr>))"

text \<open>\<open>rounds\<close>: primary key, \<open>UNIQUE(game_id, round_number)\<close>, foreign keys to
  \<open>games\<close> and \<open>topics\<close>, \<open>round_number INTEGER\<close>.\<close>

definition insert_round :: "db \<Rightarrow> round_row \<Rightarrow> db option" where
  "insert_round d r =
     (if r_id r \<in> set (map r_id (rounds d))
         \<or> (r_game_id r, r_round_number r) \<in> set (map (\<lambda>q. (r_game_id q, r_round_number q)) (rounds d))
         \<or> r_game_id r \<notin> set (map g_id (games d))
         \<or> r_topic_id r \<notin> set (topics d)
         \<or> \<not> int4 (r_round_number r)
      then None
      else Some (d\<lparr>rounds := rounds d @ [r]\<rparr>))"

text \<open>\<open>rankings\<close>: \<open>UNIQUE(round_id, item_id)\<close>, \<open>UNIQUE(round_id, position)\<close>, foreign
  keys to \<open>rounds\<close> and \<open>topic_items\<close>, \<open>position INTEGER\<close>.\<close>

definition insert_rankings :: "db \<Rightarrow> ranking_row list \<Rightarrow> db option" where
  "insert_rankings d rows =
     (let tbl = rankings d @ rows
      in if list_all (\<lambda>r. rk_round_id r \<in> set (map r_id (rounds d))
                          \<and> rk_item_id r \<in> set (map ti_id (topic_items d))
                          \<and> int4 (rk_position r)) rows
            \<and> distinct (map (\<lambda>r. (rk_round_id r, rk_item_id r)) tbl)
            \<and> distinct (map (\<lambda>r. (rk_round_id r, rk_position r)) tbl)
         then Some (d\<lparr>rankings := tbl\<rparr>)
         else None)"

text \<open>\<open>guesses\<close>: \<open>UNIQUE(round_id, user_id, item_id)\<close>,
  \<open>UNIQUE(round_id, user_id, position)\<close>, foreign keys to \<open>rounds\<close> and \<open>topic_items\<close>,
  \<open>position INTEGER\<close>.\<close>

definition insert_guesses :: "db \<Rightarrow> guess_row list \<Rightarrow> db option" where
  "insert_guesses d rows =
     (let tbl = guesses d @ rows
      in if list_all (\<lambda>g. gu_round_id g \<in> set (map r_id (rounds d))
                          \<and> gu_item_id g \<in> set (map ti_id (topic_items d))
                          \<and> int4 (gu_position g)) rows
            \<and> distinct (map (\<lambda>g. (gu_round_id g, gu_user_id g, gu_item_id g)) tbl)
            \<and> distinct (map (\<lambda>g. (gu_round_id g, gu_user_id g, gu_position g)) tbl)
         then Some (d\<lparr>guesses := tbl\<rparr>)
         else None)"

text \<open>The \<open>UPDATE\<close> statements of the actions; each changes the rows its filter selects.
  The update of \<open>reveal_index INTEGER\<close> is refused for a number out of range. The score
  updates are refused as the failure oracle of \<open>calculateScores\<close> says, below.\<close>

definition set_game_status :: "db \<Rightarrow> uuid \<Rightarrow> game_status \<Rightarrow> db" where
  "set_game_status d gid s =
     d\<lparr>games := map (\<lambda>g. if g_id g = gid then g\<lparr>g_status := s\<rparr> else g) (games d)\<rparr>"

definition set_current_vip :: "db \<Rightarrow> uuid \<Rightarrow> uuid \<Rightarrow> db" where
  "set_current_vip d gid v =
     d\<lparr>games := map (\<lambda>g. if g_id g = gid then g\<lparr>g_current_vip_id := Some v\<rparr> else g) (games d)\<rparr>"

definition set_round_status :: "db \<Rightarrow> uuid \<Rightarrow> round_status \<Rightarrow> db" where
  "set_round_status d rid s =
     d\<lparr>rounds := map (\<lambda>r. if r_id r = rid then r\<lparr>r_status := s\<rparr> else r) (rounds d)\<rparr>"

definition set_reveal_index :: "db \<Rightarrow> uuid \<Rightarrow> int \<Rightarrow> db" where
  "set_reveal_index d rid i =
     (if int4 i
      then d\<lparr>rounds := map (\<lambda>r. if r_id r = rid then r\<lparr>r_reveal_index := i\<rparr> else r) (rounds d)\<rparr>
      else d)"

definition set_score :: "db \<Rightarrow> uuid \<Rightarrow> uuid \<Rightarrow> int \<Rightarrow> db" where
  "set_score d gid uid s =
     d\<lparr>game_players :=
         map (\<lambda>p. if gp_game_id p = gid \<and> gp_user_id p = uid then p\<lparr>gp_score := s\<rparr> else p)
           (game_players d)\<rparr>"

text \<open>\<open>profile?.username || 'Player'\<close>: the fallback also replaces an empty name.\<close>

definition username_for :: "db \<Rightarrow> uuid \<Rightarrow> string" where
  "username_for d userId =
     (case single (filter (\<lambda>p. fst p = userId) (profiles d)) of
        None \<Rightarrow> ''Player''
      | Some p \<Rightarrow> if snd p = [] then ''Player'' else snd p)"

subsection \<open>createGame\<close>

text \<open>
  \<open>Math.random().toString(36).substring(2, 8).toUpperCase()\<close>. The floating-point number
  and its base-36 expansion are the environment's: the action takes the string
  \<open>Math.random().toString(36)\<close> as an argument (for example \<open>0.i\<close> for the number 0.5) and
  the model starts at \<open>substring\<close>. The id of the new row is generated by the database and
  is an argument too. Settings left out take the column defaults.
\<close>

definition toUpperCase_char :: "char \<Rightarrow> char" where
  "toUpperCase_char c =
     (case map_of (zip ''abcdefghijklmnopqrstuvwxyz'' ''ABCDEFGHIJKLMNOPQRSTUVWXYZ'') c of
        None \<Rightarrow> c
      | Some C \<Rightarrow> C)"

definition join_code :: "string \<Rightarrow> string" where
  "join_code rnd = map toUpperCase_char (take 6 (drop 2 rnd))"

record game_settings =
  target_score :: "int option"
  points_per_correct :: "int option"
  bonus_all_correct :: "int option"
  penalty_all_wrong :: "int option"

definition or_default :: "int option \<Rightarrow> int \<Rightarrow> int" where
  "or_default v dflt = (case v of None \<Rightarrow> dflt | Some x \<Rightarrow> x)"

definition new_game :: "uuid \<Rightarrow> string \<Rightarrow> uuid \<Rightarrow> game_settings \<Rightarrow> game_row" where
  "new_game newId code userId settings =
     \<lparr>g_id = newId, g_code = code, g_creator_id = userId, g_current_vip_id = Some userId,
      g_status = waiting,
      g_target_score = or_default (target_score settings) 1000,
      g_points_per_correct = or_default (points_per_correct settings) 100,
      g_bonus_all_correct = or_default (bonus_all_correct settings) 200,
      g_penalty_all_wrong = or_default (penalty_all_wrong settings) (- 50)\<rparr>"

definition createGame ::
    "db \<Rightarrow> uuid \<Rightarrow> string \<Rightarrow> uuid \<Rightarrow> game_settings \<Rightarrow> db \<times> game_row option" where
  "createGame d newId rnd userId settings =
     (let code = join_code rnd;
          game = new_game newId code userId settings
      in case insert_game d game of
           None \<Rightarrow> (d, None)
         | Some d1 \<Rightarrow>
             (case insert_player d1 \<lparr>gp_game_id = newId, gp_user_id = userId,
                                     gp_username = username_for d1 userId, gp_score = 0\<rparr> of
                None \<Rightarrow> (d1, None)
              | Some d2 \<Rightarrow> (d2, Some game)))"

subsection \<open>joinGame\<close>

text \<open>The function returns the \<open>{ id }\<close> object of the game found by its code, or \<open>null\<close>.\<close>

definition joinGame :: "db \<Rightarrow> string \<Rightarrow> uuid \<Rightarrow> db \<times> uuid option" where
  "joinGame d code userId =
     (case single (filter (\<lambda>g. g_code g = code) (games d)) of
        None \<Rightarrow> (d, None)
      | Some game \<Rightarrow>
          (case player_of d (g_id game) userId of
             Some existing \<Rightarrow> (d, Some (g_id game))
           | None \<Rightarrow>
               (case insert_player d \<lparr>gp_game_id = g_id game, gp_user_id = userId,
                                      gp_username = username_for d userId, gp_score = 0\<rparr> of
                  None \<Rightarrow> (d, None)
                | Some d1 \<Rightarrow> (d1, Some (g_id game)))))"

subsection \<open>startRound, selectTopic\<close>

definition startRound :: "db \<Rightarrow> uuid \<Rightarrow> uuid \<Rightarrow> int \<Rightarrow> db \<times> bool" where
  "startRound d gameId vipId roundNumber = (set_game_status d gameId playing, True)"

definition selectTopic ::
    "db \<Rightarrow> uuid \<Rightarrow> uuid \<Rightarrow> uuid \<Rightarrow> uuid \<Rightarrow> int \<Rightarrow> db \<times> round_row option" where
  "selectTopic d newId gameId topicId vipId roundNumber =
     (let row = \<lparr>r_id = newId, r_game_id = gameId, r_round_number = roundNumber,
                 r_topic_id = topicId, r_vip_id = vipId, r_status = vip_ranking,
                 r_reveal_index = 0\<rparr>
      in case insert_round d row of
           None \<Rightarrow> (d, None)
         | Some d1 \<Rightarrow> (d1, Some row))"

subsection \<open>submitVIPRanking, submitGuess\<close>

definition ranking_rows :: "uuid \<Rightarrow> placement list \<Rightarrow> ranking_row list" where
  "ranking_rows roundId rs =
     map (\<lambda>r. \<lparr>rk_round_id = roundId, rk_item_id = itemId r, rk_position = position r\<rparr>) rs"

definition submitVIPRanking :: "db \<Rightarrow> uuid \<Rightarrow> placement list \<Rightarrow> db \<times> bool" where
  "submitVIPRanking d roundId rs =
     (case insert_rankings d (ranking_rows roundId rs) of
        None \<Rightarrow> (d, False)
      | Some d1 \<Rightarrow> (set_round_status d1 roundId player_guessing, True))"

definition submitGuess :: "db \<Rightarrow> uuid \<Rightarrow> uuid \<Rightarrow> placement list \<Rightarrow> db \<times> bool" where
  "submitGuess d roundId userId gs =
     (case insert_guesses d (guessesWithCorrectness (rankings_of d roundId) roundId userId gs) of
        None \<Rightarrow> (d, False)
      | Some d1 \<Rightarrow> (d1, True))"

subsection \<open>startReveal, calculateScores, revealNext\<close>

definition startReveal :: "db \<Rightarrow> uuid \<Rightarrow> db \<times> bool" where
  "startReveal d roundId = (set_reveal_index (set_round_status d roundId revealing) roundId 1, True)"

text \<open>
  The loop \<open>for (const [userId, scoreChange] of Object.entries(scoreUpdates))\<close>: one
  \<open>SELECT\<close> and one \<open>UPDATE\<close> per player, each awaited and its result discarded. The
  client reports a failed statement in the \<open>error\<close> field of the result and does not
  throw, so the loop goes on after a failed write. Which writes fail is the persistence
  layer's choice: the oracle \<open>fails\<close> names the users whose score update is refused.
\<close>

fun apply_updates :: "(uuid \<Rightarrow> bool) \<Rightarrow> db \<Rightarrow> uuid \<Rightarrow> (uuid \<times> int) list \<Rightarrow> db" where
  "apply_updates fails d gid [] = d"
| "apply_updates fails d gid ((userId, scoreChange) # rest) =
     (case player_of d gid userId of
        None \<Rightarrow> apply_updates fails d gid rest
      | Some player \<Rightarrow>
          apply_updates fails
            (if fails userId then d else set_score d gid userId (gp_score player + scoreChange))
            gid rest)"

text \<open>\<open>fullGame?.target_score || 1000\<close>: a missing game and a target of 0 both give 1000.\<close>

definition targetScore_of :: "game_row option \<Rightarrow> int" where
  "targetScore_of fullGame =
     (case fullGame of
        None \<Rightarrow> 1000
      | Some g \<Rightarrow> if g_target_score g = 0 then 1000 else g_target_score g)"

text \<open>The function returns nothing; an exception inside it is caught and logged.\<close>

definition calculateScores :: "(uuid \<Rightarrow> bool) \<Rightarrow> db \<Rightarrow> uuid \<Rightarrow> db" where
  "calculateScores fails d roundId =
     (case round_by_id d roundId of
        None \<Rightarrow> d
      | Some round \<Rightarrow>
          (case game_by_id d (r_game_id round) of
             None \<Rightarrow> d
           | Some game \<Rightarrow>
               (let gs = guesses_of d roundId;
                    d1 = apply_updates fails d (r_game_id round) (scoreUpdates game gs);
                    players = players_of_game d1 (r_game_id round);
                    targetScore = targetScore_of (game_by_id d1 (r_game_id round))
                in if list_ex (\<lambda>p. gp_score p \<ge> targetScore) players
                   then set_game_status d1 (r_game_id round) finished
                   else d1)))"

text \<open>
  \<open>currentIndex\<close> and \<open>totalItems\<close> are JavaScript numbers. On the whole numbers a
  number holds exactly (\<open>Number.isSafeInteger\<close>) the sum and the comparison of
  \<open>revealNext\<close> are those of the integers.
\<close>

definition safe_integer :: "int \<Rightarrow> bool" where
  "safe_integer i = (- 9007199254740991 \<le> i \<and> i \<le> 9007199254740991)"

definition revealNext :: "(uuid \<Rightarrow> bool) \<Rightarrow> db \<Rightarrow> uuid \<Rightarrow> int \<Rightarrow> int \<Rightarrow> db \<times> bool" where
  "revealNext fails d roundId currentIndex totalItems =
     (let nextIndex = currentIndex + 1
      in if nextIndex > totalItems
         then (calculateScores fails (set_round_status d roundId complete) roundId, True)
         else (set_reveal_index d roundId nextIndex, True))"

subsection \<open>rotateVIP, passVIP\<close>

text \<open>\<open>Array.prototype.findIndex\<close>: the first index whose element satisfies the predicate,
  or -1.\<close>

fun findIndex :: "('a \<Rightarrow> bool) \<Rightarrow> 'a list \<Rightarrow> int" where
  "findIndex P [] = - 1"
| "findIndex P (x # xs) =
     (if P x then 0 else (let i = findIndex P xs in if i < 0 then - 1 else i + 1))"

text \<open>
  The argument \<open>players\<close> is the caller's list of \<open>{ user_id }\<close> objects, given here by
  the user ids. \<open>!game.current_vip_id\<close> holds for \<open>null\<close> and for the empty string. With
  an empty list the index \<open>(currentIndex + 1) % 0\<close> is \<open>NaN\<close>, \<open>players[NaN]\<close> is
  \<open>undefined\<close>, and reading its \<open>user_id\<close> throws inside the \<open>try\<close>: the function
  returns false.
\<close>

definition rotateVIP :: "db \<Rightarrow> uuid \<Rightarrow> uuid list \<Rightarrow> db \<times> bool" where
  "rotateVIP d gameId players =
     (case game_by_id d gameId of
        None \<Rightarrow> (d, False)
      | Some game \<Rightarrow>
          (case g_current_vip_id game of
             None \<Rightarrow> (d, False)
           | Some vip \<Rightarrow>
               if vip = [] then (d, False)
               else
                 (let currentIndex = findIndex (\<lambda>p. p = vip) players
                  in if players = [] then (d, False)
                     else
                       (let nextIndex = (currentIndex + 1) mod int (length players);
                            nextVIP = players ! nat nextIndex
                        in (set_current_vip d gameId nextVIP, True)))))"

definition passVIP :: "db \<Rightarrow> uuid \<Rightarrow> uuid list \<Rightarrow> db \<times> bool" where
  "passVIP d gameId players = rotateVIP d gameId players"

subsection \<open>The actions as one step function\<close>

datatype action =
    CreateGame uuid string uuid game_settings
  | JoinGame string uuid
  | StartRound uuid uuid int
  | SelectTopic uuid uuid uuid uuid int
  | SubmitVIPRanking uuid "placement list"
  | SubmitGuess uuid uuid "placement list"
  | StartReveal uuid
  | RevealNext uuid int int
  | RotateVIP uuid "uuid list"
  | PassVIP uuid "uuid list"

fun step :: "(uuid \<Rightarrow> bool) \<Rightarrow> db \<Rightarrow> action \<Rightarrow> db" where
  "step fails d (CreateGame newId rnd userId settings) = fst (createGame d newId rnd userId settings)"
| "step fails d (JoinGame code userId) = fst (joinGame d code userId)"
| "step fails d (StartRound gameId vipId roundNumber) = fst (startRound d gameId vipId roundNumber)"
| "step fails d (SelectTopic newId gameId topicId vipId roundNumber) =
     fst (selectTopic d newId gameId topicId vipId roundNumber)"
| "step fails d (SubmitVIPRanking roundId rs) = fst (submitVIPRanking d roundId rs)"
| "step fails d (SubmitGuess roundId userId gs) = fst (submitGuess d roundId userId gs)"
| "step fails d (StartReveal roundId) = fst (startReveal d roundId)"
| "step fails d (RevealNext roundId currentIndex totalItems) =
     fst (revealNext fails d roundId currentIndex totalItems)"
| "step fails d (RotateVIP gameId players) = fst (rotateVIP d gameId players)"
| "step fails d (PassVIP gameId players) = fst (passVIP d gameId players)"

text \<open>A run: each step with the write failures of its moment.\<close>

fun run :: "db \<Rightarrow> ((uuid \<Rightarrow> bool) \<times> action) list \<Rightarrow> db" where
  "run d [] = d"
| "run d ((fails, a) # rest) = run (step fails d a) rest"

definition status_of :: "db \<Rightarrow> uuid \<Rightarrow> game_status option" where
  "status_of d gid = map_option g_status (game_by_id d gid)"

definition vip_of :: "db \<Rightarrow> uuid \<Rightarrow> uuid option" where
  "vip_of d gid = (case game_by_id d gid of None \<Rightarrow> None | Some g \<Rightarrow> g_current_vip_id g)"

definition score_of :: "db \<Rightarrow> uuid \<Rightarrow> uuid \<Rightarrow> int option" where
  "score_of d gid uid = map_option gp_score (player_of d gid uid)"

definition no_failure :: "uuid \<Rightarrow> bool" where
  "no_failure u = False"

subsection \<open>A game in progress\<close>

text \<open>
  One game with the default configuration and three players in join order; the first
  round, on a topic of three items, is in its reveal phase with all three items shown.
  The second player guessed the whole ranking, the third only the first item.
\<close>

definition demo_game :: game_row where
  "demo_game =
     \<lparr>g_id = ''g1'', g_code = ''ABC123'', g_creator_id = ''u1'', g_current_vip_id = Some ''u1'',
      g_status = playing, g_target_score = 1000, g_points_per_correct = 100,
      g_bonus_all_correct = 200, g_penalty_all_wrong = - 50\<rparr>"

definition demo_round :: round_row where
  "demo_round =
     \<lparr>r_id = ''r1'', r_game_id = ''g1'', r_round_number = 1, r_topic_id = ''t1'',
      r_vip_id = ''u1'', r_status = revealing, r_reveal_index = 3\<rparr>"

definition demo_players :: "player_row list" where
  "demo_players =
     [\<lparr>gp_game_id = ''g1'', gp_user_id = ''u1'', gp_username = ''Ann'', gp_score = 0\<rparr>,
      \<lparr>gp_game_id = ''g1'', gp_user_id = ''u2'', gp_username = ''Bob'', gp_score = 0\<rparr>,
      \<lparr>gp_game_id = ''g1'', gp_user_id = ''u3'', gp_username = ''Cy'', gp_score = 0\<rparr>]"

definition demo_rankings :: "ranking_row list" where
  "demo_rankings =
     [\<lparr>rk_round_id = ''r1'', rk_item_id = ''a'', rk_position = 0\<rparr>,
      \<lparr>rk_round_id = ''r1'', rk_item_id = ''b'', rk_position = 1\<rparr>,
      \<lparr>rk_round_id = ''r1'', rk_item_id = ''c'', rk_position = 2\<rparr>]"

definition demo_guesses :: "guess_row list" where
  "demo_guesses =
     [\<lparr>gu_round_id = ''r1'', gu_user_id = ''u2'', gu_item_id = ''a'', gu_position = 0, gu_is_correct = Some True\<rparr>,
      \<lparr>gu_round_id = ''r1'', gu_user_id = ''u2'', gu_item_id = ''b'', gu_position = 1, gu_is_correct = Some True\<rparr>,
      \<lparr>gu_round_id = ''r1'', gu_user_id = ''u2'', gu_item_id = ''c'', gu_position = 2, gu_is_correct = Some True\<rparr>,
      \<lparr>gu_round_id = ''r1'', gu_user_id = ''u3'', gu_item_id = ''a'', gu_position = 0, gu_is_correct = Some True\<rparr>,
      \<lparr>gu_round_id = ''r1'', gu_user_id = ''u3'', gu_item_id = ''b'', gu_position = 2, gu_is_correct = Some False\<rparr>,
      \<lparr>gu_round_id = ''r1'', gu_user_id = ''u3'', gu_item_id = ''c'', gu_position = 1, gu_is_correct = Some False\<rparr>]"

definition demo_items :: "item_row list" where
  "demo_items =
     [\<lparr>ti_id = ''a'', ti_topic_id = ''t1''\<rparr>,
      \<lparr>ti_id = ''b'', ti_topic_id = ''t1''\<rparr>,
      \<lparr>ti_id = ''c'', ti_topic_id = ''t1''\<rparr>]"

definition demo_db :: db where
  "demo_db =
     \<lparr>games = [demo_game], game_players = demo_players, rounds = [demo_round],
      rankings = demo_rankings, guesses = demo_guesses, topics = [''t1''],
      topic_items = demo_items,
      profiles = [(''u1'', ''Ann''), (''u2'', ''Bob''), (''u3'', ''Cy''), (''u4'', ''Dee'')]\<rparr>"

text \<open>The same game while the players are still guessing, before any guess is stored.\<close>

definition demo_guessing_db :: db where
  "demo_guessing_db =
     demo_db\<lparr>rounds := [demo_round\<lparr>r_status := player_guessing, r_reveal_index := 0\<rparr>],
             guesses := []\<rparr>"

text \<open>The placements the second player submits: the VIP's own order.\<close>

definition demo_submission :: "placement list" where
  "demo_submission =
     [\<lparr>itemId = ''a'', position = 0\<rparr>, \<lparr>itemId = ''b'', position = 1\<rparr>,
      \<lparr>itemId = ''c'', position = 2\<rparr>]"

text \<open>The scores of the win-condition example: 950, 1000 and 800, no guess stored.\<close>

definition demo_won_db :: db where
  "demo_won_db =
     demo_db\<lparr>game_players :=
                [\<lparr>gp_game_id = ''g1'', gp_user_id = ''u1'', gp_username = ''Ann'', gp_score = 950\<rparr>,
                 \<lparr>gp_game_id = ''g1'', gp_user_id = ''u2'', gp_username = ''Bob'', gp_score = 1000\<rparr>,
                 \<lparr>gp_game_id = ''g1'', gp_user_id = ''u3'', gp_username = ''Cy'', gp_score = 800\<rparr>],
             guesses := []\<rparr>"

text \<open>The game after it has finished, and the round while the VIP is still ranking.\<close>

definition demo_finished_db :: db where
  "demo_finished_db = demo_db\<lparr>games := [demo_game\<lparr>g_status := finished\<rparr>]\<rparr>"

definition demo_ranking_db :: db where
  "demo_ranking_db =
     demo_db\<lparr>rounds := [demo_round\<lparr>r_status := vip_ranking, r_reveal_index := 0\<rparr>],
             rankings := [], guesses := []\<rparr>"

text \<open>The reveal phase reached with only the second player's guesses stored.\<close>

definition demo_late_db :: db where
  "demo_late_db = demo_db\<lparr>guesses := take 3 demo_guesses\<rparr>"

text \<open>A persistence layer that refuses the score update of the third player only.\<close>

definition u3_write_fails :: "uuid \<Rightarrow> bool" where
  "u3_write_fails u = (u = ''u3'')"

text \<open>A call of \<open>createGame\<close> without settings.\<close>

definition default_settings :: game_settings where
  "default_settings =
     \<lparr>target_score = None, points_per_correct = None, bonus_all_correct = None,
      penalty_all_wrong = None\<rparr>"

text \<open>A run on the round in its ranking phase: the second player guesses before the VIP has
  ranked, then the VIP submits the same order, and the reveal goes through to the end.\<close>

definition demo_early_guess_run :: "((uuid \<Rightarrow> bool) \<times> action) list" where
  "demo_early_guess_run =
     [(no_failure, SubmitGuess ''r1'' ''u2'' demo_submission),
      (no_failure, SubmitVIPRanking ''r1'' demo_submission),
      (no_failure, StartReveal ''r1''),
      (no_failure, RevealNext ''r1'' 1 3),
      (no_failure, RevealNext ''r1'' 2 3),
      (no_failure, RevealNext ''r1'' 3 3)]"

subsection \<open>Notions of the specification\<close>

text \<open>
  The scoring rule, read off the guesses table itself: the guess rows a player has stored
  for a round, and the delta the rule gives for them. Every guess correct earns the bonus,
  every guess incorrect the penalty; no guess, no delta.
\<close>

definition guesses_in_round_by :: "db \<Rightarrow> uuid \<Rightarrow> uuid \<Rightarrow> guess_row list" where
  "guesses_in_round_by d rid u =
     filter (\<lambda>g. gu_round_id g = rid \<and> gu_user_id g = u) (guesses d)"

definition expected_delta :: "game_row \<Rightarrow> guess_row list \<Rightarrow> int option" where
  "expected_delta game mine =
     (if mine = [] then None
      else Some (int (length (filter (\<lambda>g. gu_is_correct g = Some True) mine))
                   * g_points_per_correct game
                 + (if list_all (\<lambda>g. gu_is_correct g = Some True) mine
                    then g_bonus_all_correct game
                    else if list_all (\<lambda>g. gu_is_correct g \<noteq> Some True) mine
                    then g_penalty_all_wrong game
                    else 0)))"


text \<open>A complete ranking covers every item of the round's topic exactly once, with no
  position used twice.\<close>

definition topic_items_of_round :: "db \<Rightarrow> uuid \<Rightarrow> uuid list" where
  "topic_items_of_round d rid =
     (case round_by_id d rid of
        None \<Rightarrow> []
      | Some r \<Rightarrow> map ti_id (filter (\<lambda>i. ti_topic_id i = r_topic_id r) (topic_items d)))"

definition complete_ranking :: "db \<Rightarrow> uuid \<Rightarrow> placement list \<Rightarrow> bool" where
  "complete_ranking d rid rs =
     (distinct (map itemId rs) \<and> distinct (map position rs)
      \<and> set (map itemId rs) = set (topic_items_of_round d rid))"

text \<open>The digits of a base-36 expansion, and the characters of a join code.\<close>

definition base36_digit :: "char \<Rightarrow> bool" where
  "base36_digit c = (c \<in> set ''0123456789abcdefghijklmnopqrstuvwxyz'')"

definition upper_alnum :: "char \<Rightarrow> bool" where
  "upper_alnum c = (c \<in> set ''0123456789ABCDEFGHIJKLMNOPQRSTUVWXYZ'')"

section \<open>Properties\<close>

subsection \<open>The score updates\<close>


lemma map_of_tally_step:
  "map_of (tally_step ppc g acc) =
     (map_of acc)(gu_user_id g \<mapsto> entry acc (gu_user_id g) + (if truthy (gu_is_correct g) then ppc else 0))"
  by (auto simp: tally_step_def entry_def Let_def update_conv' split: option.splits)

lemma keys_tally_step:
  "distinct (map fst acc) \<Longrightarrow> distinct (map fst (tally_step ppc g acc))"
  by (auto simp: tally_step_def Let_def distinct_update split: option.splits)

lemma entry_tally_step:
  "entry (tally_step ppc g acc) u =
     entry acc u + (if gu_user_id g = u \<and> truthy (gu_is_correct g) then ppc else 0)"
  by (simp add: entry_def map_of_tally_step)

lemma map_of_fold_tally:
  "map_of (fold (tally_step ppc) gs acc) u =
     (if guessesOfUser gs u = [] then map_of acc u
      else Some (entry acc u + int (correctCount gs u) * ppc))"
proof (induction gs arbitrary: acc)
  case Nil
  then show ?case by (simp add: guessesOfUser_def)
next
  case (Cons g gs)
  show ?case
    by (simp add: Cons.IH entry_tally_step map_of_tally_step guessesOfUser_def correctCount_def algebra_simps)
qed

lemma distinct_fold_tally:
  "distinct (map fst acc) \<Longrightarrow> distinct (map fst (fold (tally_step ppc) gs acc))"
  by (induction gs arbitrary: acc) (simp_all add: keys_tally_step)

lemma all_correct_iff:
  "list_all (\<lambda>g. truthy (gu_is_correct g)) (guessesOfUser gs u) \<longleftrightarrow>
     correctCount gs u = length (guessesOfUser gs u)"
  unfolding correctCount_def list_all_iff
  by (metis filter_True filter_id_conv length_filter_less less_irrefl_nat)

lemma all_wrong_iff:
  "list_all (\<lambda>g. \<not> truthy (gu_is_correct g)) (guessesOfUser gs u) \<longleftrightarrow> correctCount gs u = 0"
  unfolding correctCount_def list_all_iff
  by (simp add: filter_empty_conv)

lemma map_of_bonus_step:
  "map_of (bonus_step game gs k acc) =
     (case map_of acc k of None \<Rightarrow> map_of acc
      | Some v \<Rightarrow> (map_of acc)(k \<mapsto> v + adjustment game gs k))"
  using all_correct_iff [of gs k] all_wrong_iff [of gs k]
  by (auto simp: bonus_step_def Let_def update_conv' adjustment_def guessesOfUser_def split: option.splits)

lemma keys_bonus_step:
  "distinct (map fst acc) \<Longrightarrow> distinct (map fst (bonus_step game gs k acc))"
  by (auto simp: bonus_step_def Let_def distinct_update split: option.splits)

lemma distinct_fold_bonus:
  "distinct (map fst acc) \<Longrightarrow> distinct (map fst (fold (bonus_step game gs) ks acc))"
  by (induction ks arbitrary: acc) (simp_all add: keys_bonus_step)

lemma map_of_fold_bonus:
  "distinct ks \<Longrightarrow>
   map_of (fold (bonus_step game gs) ks acc) u =
     (if u \<in> set ks then map_option (\<lambda>v. v + adjustment game gs u) (map_of acc u)
      else map_of acc u)"
proof (induction ks arbitrary: acc)
  case Nil
  then show ?case by simp
next
  case (Cons k ks)
  then show ?case
    by (auto simp: map_of_bonus_step split: option.splits)
qed

lemma distinct_tally: "distinct (map fst (tally ppc gs))"
  unfolding tally_def by (rule distinct_fold_tally) simp

lemma distinct_scoreUpdates: "distinct (map fst (scoreUpdates game gs))"
  unfolding scoreUpdates_def Let_def by (rule distinct_fold_bonus) (rule distinct_tally)

lemma map_of_scoreUpdates:
  "map_of (scoreUpdates game gs) u =
     (if guessesOfUser gs u = [] then None
      else Some (int (correctCount gs u) * g_points_per_correct game + adjustment game gs u))"
proof -
  let ?acc = "tally (g_points_per_correct game) gs"
  have m: "map_of ?acc u =
     (if guessesOfUser gs u = [] then None
      else Some (int (correctCount gs u) * g_points_per_correct game))"
    unfolding tally_def by (simp add: map_of_fold_tally entry_def)
  have k: "u \<in> set (map fst ?acc) \<longleftrightarrow> guessesOfUser gs u \<noteq> []"
    using m by (metis map_of_eq_None_iff option.distinct(1) set_map)
  show ?thesis
    unfolding scoreUpdates_def Let_def
    by (simp add: map_of_fold_bonus [OF distinct_tally] m k del: set_map)
qed

lemma single_map: "single (map f xs) = map_option f (single xs)"
  by (cases xs rule: single.cases) simp_all

lemma filter_key_map:
  "filter (\<lambda>p. gp_game_id p = gid \<and> gp_user_id p = u)
     (map (\<lambda>p. if gp_game_id p = gid \<and> gp_user_id p = u' then p\<lparr>gp_score := s\<rparr> else p) xs) =
   map (\<lambda>p. if u = u' then p\<lparr>gp_score := s\<rparr> else p)
     (filter (\<lambda>p. gp_game_id p = gid \<and> gp_user_id p = u) xs)"
  by (induction xs) auto

lemma player_of_set_score:
  "player_of (set_score d gid u' s) gid u =
     (if u = u' then map_option (\<lambda>p. p\<lparr>gp_score := s\<rparr>) (player_of d gid u)
      else player_of d gid u)"
  by (simp add: player_of_def set_score_def filter_key_map single_map option.map_ident)

lemma apply_updates_player:
  "distinct (map fst ups) \<Longrightarrow> player_of d gid u = Some p \<Longrightarrow>
   player_of (apply_updates fails d gid ups) gid u =
     Some (p\<lparr>gp_score := gp_score p + (if fails u then 0 else entry ups u)\<rparr>)"
proof (induction ups arbitrary: d p)
  case Nil
  then show ?case by (simp add: entry_def)
next
  case (Cons a ups)
  obtain u' c where a: "a = (u', c)" by (cases a)
  have dist: "distinct (map fst ups)" and notin: "u' \<notin> fst ` set ups"
    using Cons.prems(1) a by auto
  show ?case
  proof (cases "u = u'")
    case True
    then have none: "map_of ups u = None"
      using notin by (simp add: map_of_eq_None_iff)
    show ?thesis
    proof (cases "fails u'")
      case True
      with \<open>u = u'\<close> Cons.prems(2) Cons.IH [OF dist Cons.prems(2)] show ?thesis
        by (simp add: a)
    next
      case False
      have "player_of (set_score d gid u' (gp_score p + c)) gid u = Some (p\<lparr>gp_score := gp_score p + c\<rparr>)"
        using \<open>u = u'\<close> Cons.prems(2) by (simp add: player_of_set_score)
      from Cons.IH [OF dist this] False \<open>u = u'\<close> Cons.prems(2) none show ?thesis
        by (simp add: a entry_def)
    qed
  next
    case False
    then have e: "entry ((u', c) # ups) u = entry ups u"
      by (simp add: entry_def)
    have "player_of (set_score d gid u' s) gid u = Some p" for s
      using False Cons.prems(2) by (simp add: player_of_set_score)
    with Cons.IH [OF dist] Cons.prems(2) show ?thesis
      by (simp add: a e split: option.splits)
  qed
qed

lemma games_apply_updates [simp]: "games (apply_updates fails d gid ups) = games d"
  by (induction fails d gid ups rule: apply_updates.induct) (auto simp: set_score_def split: option.splits)

lemma rounds_apply_updates [simp]: "rounds (apply_updates fails d gid ups) = rounds d"
  by (induction fails d gid ups rule: apply_updates.induct) (auto simp: set_score_def split: option.splits)


lemma game_players_set_game_status [simp]:
  "game_players (set_game_status d gid s) = game_players d"
  by (simp add: set_game_status_def)

lemma player_of_set_game_status [simp]:
  "player_of (set_game_status d gid s) g u = player_of d g u"
  by (simp add: player_of_def)

lemma calculateScores_player:
  assumes "round_by_id d rid = Some r" and "game_by_id d (r_game_id r) = Some game"
    and "player_of d (r_game_id r) u = Some p"
  shows "player_of (calculateScores fails d rid) (r_game_id r) u =
     Some (p\<lparr>gp_score := gp_score p +
        (if fails u then 0 else entry (scoreUpdates game (guesses_of d rid)) u)\<rparr>)"
  using assms apply_updates_player [OF distinct_scoreUpdates assms(3), of fails game "guesses_of d rid"]
  by (simp add: calculateScores_def Let_def)

lemma demo_lookup:
  "round_by_id demo_db ''r1'' = Some demo_round"
  "game_by_id demo_db ''g1'' = Some demo_game"
  "r_game_id demo_round = ''g1''"
  "guesses_of demo_db ''r1'' = demo_guesses"
  by (simp_all add: round_by_id_def game_by_id_def guesses_of_def demo_db_def demo_round_def
      demo_game_def demo_guesses_def)

lemma demo_player_u2:
  "player_of demo_db ''g1'' ''u2'' =
     Some \<lparr>gp_game_id = ''g1'', gp_user_id = ''u2'', gp_username = ''Bob'', gp_score = 0\<rparr>"
  by (simp add: player_of_def demo_db_def demo_players_def)

lemma demo_player_u3:
  "player_of demo_db ''g1'' ''u3'' =
     Some \<lparr>gp_game_id = ''g1'', gp_user_id = ''u3'', gp_username = ''Cy'', gp_score = 0\<rparr>"
  by (simp add: player_of_def demo_db_def demo_players_def)

lemma demo_counts:
  "guessesOfUser demo_guesses ''u2'' \<noteq> []" "correctCount demo_guesses ''u2'' = 3"
  "length (guessesOfUser demo_guesses ''u2'') = 3"
  "guessesOfUser demo_guesses ''u3'' \<noteq> []" "correctCount demo_guesses ''u3'' = 1"
  "length (guessesOfUser demo_guesses ''u3'') = 3"
  "guessesOfUser demo_guesses ''u1'' = []"
  by (simp_all add: guessesOfUser_def correctCount_def demo_guesses_def truthy_def)

lemma demo_deltas:
  "map_of (scoreUpdates demo_game demo_guesses) ''u2'' = Some 500"
  "map_of (scoreUpdates demo_game demo_guesses) ''u3'' = Some 100"
  "map_of (scoreUpdates demo_game demo_guesses) ''u1'' = None"
  using demo_counts by (simp_all add: map_of_scoreUpdates adjustment_def demo_game_def)

lemma demo_submitGuess:
  "submitGuess demo_guessing_db ''r1'' ''u2'' demo_submission =
     (demo_guessing_db\<lparr>guesses := take 3 demo_guesses\<rparr>, True)"
  by (simp add: submitGuess_def insert_guesses_def guessesWithCorrectness_def rankings_of_def
      is_correct_flag_def demo_guessing_db_def demo_db_def demo_round_def demo_rankings_def
      demo_submission_def demo_guesses_def demo_items_def int4_def Let_def)

subsection \<open>The win check and the rotation of the VIP\<close>

lemma rounds_set_game_status [simp]: "rounds (set_game_status d gid s) = rounds d"
  by (simp add: set_game_status_def)

lemma rounds_calculateScores [simp]: "rounds (calculateScores fails d rid) = rounds d"
  by (simp add: calculateScores_def Let_def split: option.splits)

lemma game_by_id_apply_updates [simp]:
  "game_by_id (apply_updates fails d gid ups) g = game_by_id d g"
  by (simp add: game_by_id_def)

lemma filter_id_map_status:
  "filter (\<lambda>g. g_id g = gid)
     (map (\<lambda>g. if g_id g = gid' then g\<lparr>g_status := s\<rparr> else g) xs) =
   map (\<lambda>g. if gid = gid' then g\<lparr>g_status := s\<rparr> else g) (filter (\<lambda>g. g_id g = gid) xs)"
  by (induction xs) auto

lemma game_by_id_set_game_status:
  "game_by_id (set_game_status d gid' s) gid =
     (if gid = gid' then map_option (\<lambda>g. g\<lparr>g_status := s\<rparr>) (game_by_id d gid)
      else game_by_id d gid)"
  by (simp add: game_by_id_def set_game_status_def filter_id_map_status single_map option.map_ident)

lemma filter_id_map_vip:
  "filter (\<lambda>g. g_id g = gid)
     (map (\<lambda>g. if g_id g = gid' then g\<lparr>g_current_vip_id := v\<rparr> else g) xs) =
   map (\<lambda>g. if gid = gid' then g\<lparr>g_current_vip_id := v\<rparr> else g) (filter (\<lambda>g. g_id g = gid) xs)"
  by (induction xs) auto

lemma game_by_id_set_current_vip:
  "game_by_id (set_current_vip d gid' v) gid =
     (if gid = gid' then map_option (\<lambda>g. g\<lparr>g_current_vip_id := Some v\<rparr>) (game_by_id d gid)
      else game_by_id d gid)"
  by (simp add: game_by_id_def set_current_vip_def filter_id_map_vip single_map option.map_ident)

lemma players_of_game_set_game_status [simp]:
  "players_of_game (set_game_status d gid s) g = players_of_game d g"
  by (simp add: players_of_game_def)

lemma vip_of_calculateScores: "vip_of (calculateScores fails d rid) gid = vip_of d gid"
  by (auto simp: calculateScores_def Let_def vip_of_def game_by_id_set_game_status
      split: option.splits)

lemma status_of_calculateScores:
  assumes "round_by_id d rid = Some r" and "game_by_id d (r_game_id r) = Some game"
  shows "status_of (calculateScores fails d rid) (r_game_id r) =
     Some (if \<exists>p \<in> set (players_of_game (calculateScores fails d rid) (r_game_id r)).
                gp_score p \<ge> targetScore_of (Some game)
           then finished else g_status game)"
  using assms
  by (simp add: calculateScores_def Let_def status_of_def game_by_id_set_game_status list_ex_iff)

lemma status_of_calculateScores_other:
  "status_of (calculateScores fails d rid) gid = status_of d gid
   \<or> status_of (calculateScores fails d rid) gid = Some finished"
  by (auto simp: calculateScores_def Let_def status_of_def game_by_id_set_game_status
      split: option.splits)

lemma findIndex_first:
  "i < length xs \<Longrightarrow> P (xs ! i) \<Longrightarrow> \<forall>x \<in> set (take i xs). \<not> P x \<Longrightarrow> findIndex P xs = int i"
proof (induction xs arbitrary: i)
  case Nil
  then show ?case by simp
next
  case (Cons x xs)
  show ?case
  proof (cases i)
    case 0
    with Cons.prems show ?thesis by simp
  next
    case (Suc j)
    with Cons.prems have "findIndex P xs = int j" and "\<not> P x"
      using Cons.IH [of j] by auto
    with Suc show ?thesis by simp
  qed
qed

lemma findIndex_absent: "\<forall>x \<in> set xs. \<not> P x \<Longrightarrow> findIndex P xs = - 1"
  by (induction xs) auto

lemma rotateVIP_found:
  assumes "game_by_id d gid = Some g" and "g_current_vip_id g = Some v" and "v \<noteq> []"
    and "i < length players" and "players ! i = v" and "v \<notin> set (take i players)"
  shows "rotateVIP d gid players =
     (set_current_vip d gid (players ! ((i + 1) mod length players)), True)"
proof -
  have "findIndex (\<lambda>p. p = v) players = int i"
    using assms(4-6) by (intro findIndex_first) auto
  moreover have "players \<noteq> []" using assms(4) by auto
  moreover have "nat ((int i + 1) mod int (length players)) = (i + 1) mod length players"
    by (simp add: nat_mod_distrib nat_add_distrib)
  ultimately show ?thesis
    using assms(1-3) by (simp add: rotateVIP_def Let_def)
qed

lemma vip_of_set_current_vip:
  "game_by_id d gid = Some g \<Longrightarrow> vip_of (set_current_vip d gid v) gid = Some v"
  by (simp add: vip_of_def game_by_id_set_current_vip)

text \<open>
  C2 (as amended). \<open>calculateScores\<close> ends with the win check: for a game whose target is
  not 0, the game is finished exactly when some player of the game has reached the
  target, and keeps its status otherwise. It never changes the current VIP. Rotation is
  the separate action \<open>rotateVIP\<close>: the player after the current VIP in the supplied
  list becomes the VIP, the first one after the last.
\<close>

theorem win_check_then_separate_rotation:
  "(round_by_id d rid = Some r \<and> game_by_id d (r_game_id r) = Some game
      \<and> g_target_score game \<noteq> 0 \<longrightarrow>
      status_of (calculateScores fails d rid) (r_game_id r) =
        Some (if \<exists>p \<in> set (players_of_game (calculateScores fails d rid) (r_game_id r)).
                   g_target_score game \<le> gp_score p
              then finished else g_status game))
   \<and> vip_of (calculateScores fails d rid) gid = vip_of d gid
   \<and> (game_by_id d0 gid0 = Some g \<and> g_current_vip_id g = Some v \<and> v \<noteq> []
        \<and> i < length players \<and> players ! i = v \<and> v \<notin> set (take i players) \<longrightarrow>
        rotateVIP d0 gid0 players =
          (set_current_vip d0 gid0 (players ! ((i + 1) mod length players)), True)
        \<and> vip_of (fst (rotateVIP d0 gid0 players)) gid0 =
            Some (players ! ((i + 1) mod length players)))"
proof (intro conjI impI)
  assume a: "round_by_id d rid = Some r \<and> game_by_id d (r_game_id r) = Some game
      \<and> g_target_score game \<noteq> 0"
  then have "targetScore_of (Some game) = g_target_score game"
    by (simp add: targetScore_of_def)
  with a status_of_calculateScores [of d rid r game fails]
  show "status_of (calculateScores fails d rid) (r_game_id r) =
        Some (if \<exists>p \<in> set (players_of_game (calculateScores fails d rid) (r_game_id r)).
                   g_target_score game \<le> gp_score p
              then finished else g_status game)"
    by simp
next
  show "vip_of (calculateScores fails d rid) gid = vip_of d gid"
    by (rule vip_of_calculateScores)
next
  assume b: "game_by_id d0 gid0 = Some g \<and> g_current_vip_id g = Some v \<and> v \<noteq> []
        \<and> i < length players \<and> players ! i = v \<and> v \<notin> set (take i players)"
  then show r: "rotateVIP d0 gid0 players =
          (set_current_vip d0 gid0 (players ! ((i + 1) mod length players)), True)"
    using rotateVIP_found [of d0 gid0 g v i players] by simp
  from b show "vip_of (fst (rotateVIP d0 gid0 players)) gid0 =
            Some (players ! ((i + 1) mod length players))"
    by (simp add: r vip_of_set_current_vip)
qed

lemma demo_won_lookup:
  "round_by_id demo_won_db ''r1'' = Some demo_round"
  "game_by_id demo_won_db ''g1'' = Some demo_game"
  by (simp_all add: demo_won_db_def demo_db_def round_by_id_def game_by_id_def demo_round_def
      demo_game_def)

lemma demo_won_players:
  "map gp_score (players_of_game (calculateScores no_failure demo_won_db ''r1'') ''g1'') =
     [950, 1000, 800]"
  by code_simp

theorem win_check_then_separate_rotation_witness:
  "round_by_id demo_won_db ''r1'' = Some demo_round
   \<and> game_by_id demo_won_db ''g1'' = Some demo_game
   \<and> status_of (calculateScores no_failure demo_won_db ''r1'') ''g1'' = Some finished
   \<and> vip_of (calculateScores no_failure demo_won_db ''r1'') ''g1'' = Some ''u1''
   \<and> game_by_id (set_current_vip demo_db ''g1'' ''u3'') ''g1'' =
       Some (demo_game\<lparr>g_current_vip_id := Some ''u3''\<rparr>)
   \<and> vip_of (fst (rotateVIP (set_current_vip demo_db ''g1'' ''u3'') ''g1'' [''u1'', ''u2'', ''u3'']))
       ''g1'' = Some ''u1''"
proof -
  let ?d0 = "set_current_vip demo_db ''g1'' ''u3''"
  note t = win_check_then_separate_rotation [of demo_won_db "''r1''" demo_round demo_game
      no_failure "''g1''" ?d0 "''g1''" "demo_game\<lparr>g_current_vip_id := Some ''u3''\<rparr>" "''u3''"
      2 "[''u1'', ''u2'', ''u3'']"]
  have g: "game_by_id ?d0 ''g1'' = Some (demo_game\<lparr>g_current_vip_id := Some ''u3''\<rparr>)"
    by (simp add: game_by_id_set_current_vip demo_lookup)
  have w: "\<exists>p \<in> set (players_of_game (calculateScores no_failure demo_won_db ''r1'') ''g1'').
      1000 \<le> gp_score p"
    by code_simp
  have s: "status_of (calculateScores no_failure demo_won_db ''r1'') ''g1'' = Some finished"
    using t demo_won_lookup w demo_lookup(3) by (simp add: demo_game_def)
  have v: "vip_of (calculateScores no_failure demo_won_db ''r1'') ''g1'' = Some ''u1''"
    using t demo_won_lookup by (simp add: vip_of_def demo_game_def)
  have r: "vip_of (fst (rotateVIP ?d0 ''g1'' [''u1'', ''u2'', ''u3''])) ''g1'' = Some ''u1''"
    using t g by (simp add: numeral_2_eq_2 vip_of_set_current_vip)
  show ?thesis using s v r g demo_won_lookup by simp
qed

theorem no_rotation_counterexample:
  "status_of demo_db ''g1'' = Some playing
   \<and> vip_of demo_db ''g1'' = Some ''u1''
   \<and> map gp_user_id (players_of_game demo_db ''g1'') = [''u1'', ''u2'', ''u3'']
   \<and> map gp_score (players_of_game (calculateScores no_failure demo_db ''r1'') ''g1'') = [0, 500, 100]
   \<and> status_of (calculateScores no_failure demo_db ''r1'') ''g1'' = Some playing
   \<and> vip_of (calculateScores no_failure demo_db ''r1'') ''g1'' = Some ''u1''
   \<and> vip_of (calculateScores no_failure demo_db ''r1'') ''g1'' \<noteq> Some ''u2''"
  by code_simp

subsection \<open>Score application under write failures, and the reveal step\<close>

text \<open>
  C7 (as amended). The score deltas of a round are written player by player, each by its
  own statement: after \<open>calculateScores\<close> a player's score is the old score plus the
  delta when that player's write went through and the old score when it was refused,
  whatever happened to the writes of the other players. The outcome of the writes is not
  reported: \<open>revealNext\<close> returns true in every case.
\<close>

theorem score_writes_one_by_one:
  "(round_by_id d rid = Some r \<and> game_by_id d (r_game_id r) = Some game
      \<and> player_of d (r_game_id r) u = Some p \<longrightarrow>
      score_of (calculateScores fails d rid) (r_game_id r) u =
        Some (gp_score p
              + (if fails u then 0 else entry (scoreUpdates game (guesses_of d rid)) u)))
   \<and> snd (revealNext fails d0 rid0 currentIndex totalItems) = True"
proof (intro conjI impI)
  assume "round_by_id d rid = Some r \<and> game_by_id d (r_game_id r) = Some game
      \<and> player_of d (r_game_id r) u = Some p"
  then show "score_of (calculateScores fails d rid) (r_game_id r) u =
        Some (gp_score p
              + (if fails u then 0 else entry (scoreUpdates game (guesses_of d rid)) u))"
    using calculateScores_player [of d rid r game u p fails]
    by (simp add: score_of_def)
next
  show "snd (revealNext fails d0 rid0 currentIndex totalItems) = True"
    by (simp add: revealNext_def Let_def)
qed

theorem score_writes_one_by_one_witness:
  "round_by_id demo_db ''r1'' = Some demo_round
   \<and> game_by_id demo_db (r_game_id demo_round) = Some demo_game
   \<and> u3_write_fails ''u3''
   \<and> entry (scoreUpdates demo_game (guesses_of demo_db ''r1'')) ''u3'' = 100
   \<and> score_of (calculateScores u3_write_fails demo_db ''r1'') ''g1'' ''u3'' = Some 0
   \<and> snd (revealNext u3_write_fails demo_db ''r1'' 3 3)"
proof -
  let ?p = "\<lparr>gp_game_id = ''g1'', gp_user_id = ''u3'', gp_username = ''Cy'', gp_score = 0\<rparr>"
  note t = score_writes_one_by_one [of demo_db "''r1''" demo_round demo_game "''u3''" ?p
      u3_write_fails demo_db "''r1''" 3 3]
  have e: "entry (scoreUpdates demo_game (guesses_of demo_db ''r1'')) ''u3'' = 100"
    by (simp add: demo_lookup entry_def demo_deltas)
  have s: "score_of (calculateScores u3_write_fails demo_db ''r1'') ''g1'' ''u3'' = Some 0"
    using t demo_lookup demo_player_u3 by (simp add: u3_write_fails_def)
  show ?thesis using t e s demo_lookup by (simp add: u3_write_fails_def)
qed

theorem partial_score_application_counterexample:
  "score_of demo_db ''g1'' ''u2'' = Some 0
   \<and> score_of demo_db ''g1'' ''u3'' = Some 0
   \<and> map_of (scoreUpdates demo_game (guesses_of demo_db ''r1'')) ''u2'' = Some 500
   \<and> map_of (scoreUpdates demo_game (guesses_of demo_db ''r1'')) ''u3'' = Some 100
   \<and> score_of (calculateScores u3_write_fails demo_db ''r1'') ''g1'' ''u2'' = Some 500
   \<and> score_of (calculateScores u3_write_fails demo_db ''r1'') ''g1'' ''u3'' = Some 0
   \<and> score_of (fst (revealNext u3_write_fails demo_db ''r1'' 3 3)) ''g1'' ''u2'' = Some 500
   \<and> score_of (fst (revealNext u3_write_fails demo_db ''r1'' 3 3)) ''g1'' ''u3'' = Some 0
   \<and> snd (revealNext u3_write_fails demo_db ''r1'' 3 3) = True"
  by code_simp

lemma filter_id_map_round:
  "filter (\<lambda>r. r_id r = rid) (map (\<lambda>r. if r_id r = rid' then f r else r) xs) =
   map (\<lambda>r. if rid = rid' then f r else r) (filter (\<lambda>r. r_id r = rid) xs)"
  if "\<And>r. r_id (f r) = r_id r"
  using that by (induction xs) auto

lemma round_by_id_set_round_status:
  "round_by_id (set_round_status d rid' s) rid =
     (if rid = rid' then map_option (\<lambda>r. r\<lparr>r_status := s\<rparr>) (round_by_id d rid)
      else round_by_id d rid)"
  by (simp add: round_by_id_def set_round_status_def filter_id_map_round single_map option.map_ident)

lemma round_by_id_set_reveal_index:
  "round_by_id (set_reveal_index d rid' i) rid =
     (if rid = rid' \<and> int4 i then map_option (\<lambda>r. r\<lparr>r_reveal_index := i\<rparr>) (round_by_id d rid)
      else round_by_id d rid)"
  by (simp add: round_by_id_def set_reveal_index_def filter_id_map_round single_map option.map_ident)

lemma demo_topic_items:
  "topic_items_of_round demo_db ''r1'' = [''a'', ''b'', ''c'']"
  "topic_items_of_round (set_reveal_index demo_db ''r1'' 2) ''r1'' = [''a'', ''b'', ''c'']"
  by code_simp+

lemma round_by_id_calculateScores [simp]:
  "round_by_id (calculateScores fails d rid') rid = round_by_id d rid"
  by (simp add: round_by_id_def)

text \<open>
  C3 (as amended). \<open>revealNext\<close> works from its arguments, whole numbers that a
  JavaScript number holds exactly, and never reads the round. When \<open>currentIndex + 1\<close> does not exceed \<open>totalItems\<close> it stores that number as the
  round's reveal index (or nothing, when the number does not fit the column), leaves the
  status alone and does not score; otherwise it sets the round to complete, leaves the
  index alone and runs \<open>calculateScores\<close> once. When the caller passes the round's own
  reveal index and the number of items of the round's topic, the index goes up by exactly
  one without exceeding the item count, or, at the item count, the round becomes complete.
\<close>

theorem revealNext_by_arguments:
  "round_by_id d rid = Some r \<and> safe_integer currentIndex \<and> safe_integer totalItems \<longrightarrow>
     snd (revealNext fails d rid currentIndex totalItems) = True
     \<and> (currentIndex + 1 \<le> totalItems \<longrightarrow>
          round_by_id (fst (revealNext fails d rid currentIndex totalItems)) rid =
            Some (if int4 (currentIndex + 1) then r\<lparr>r_reveal_index := currentIndex + 1\<rparr> else r)
          \<and> games (fst (revealNext fails d rid currentIndex totalItems)) = games d
          \<and> game_players (fst (revealNext fails d rid currentIndex totalItems)) = game_players d)
     \<and> (totalItems < currentIndex + 1 \<longrightarrow>
          fst (revealNext fails d rid currentIndex totalItems) =
            calculateScores fails (set_round_status d rid complete) rid
          \<and> round_by_id (fst (revealNext fails d rid currentIndex totalItems)) rid =
              Some (r\<lparr>r_status := complete\<rparr>))
     \<and> (r_reveal_index r = currentIndex \<and> int4 (r_reveal_index r)
          \<and> totalItems = int (length (topic_items_of_round d rid)) \<and> int4 totalItems
          \<and> currentIndex \<le> totalItems \<longrightarrow>
          (\<exists>r'. round_by_id (fst (revealNext fails d rid currentIndex totalItems)) rid = Some r'
             \<and> r_reveal_index r' \<le> int (length (topic_items_of_round d rid))
             \<and> (if currentIndex < totalItems
                 then r_reveal_index r' = r_reveal_index r + 1 \<and> r_status r' = r_status r
                 else r_reveal_index r' = r_reveal_index r \<and> r_status r' = complete)))"
proof
  assume "round_by_id d rid = Some r \<and> safe_integer currentIndex \<and> safe_integer totalItems"
  then have r: "round_by_id d rid = Some r" by simp
  have less: "currentIndex + 1 \<le> totalItems \<Longrightarrow>
      fst (revealNext fails d rid currentIndex totalItems) = set_reveal_index d rid (currentIndex + 1)"
    by (simp add: revealNext_def Let_def)
  have more: "totalItems < currentIndex + 1 \<Longrightarrow>
      fst (revealNext fails d rid currentIndex totalItems) =
        calculateScores fails (set_round_status d rid complete) rid"
    by (simp add: revealNext_def Let_def)
  have r1: "round_by_id (set_reveal_index d rid (currentIndex + 1)) rid =
      Some (if int4 (currentIndex + 1) then r\<lparr>r_reveal_index := currentIndex + 1\<rparr> else r)"
    using r by (simp add: round_by_id_set_reveal_index)
  have r2: "round_by_id (calculateScores fails (set_round_status d rid complete) rid) rid =
      Some (r\<lparr>r_status := complete\<rparr>)"
    using r by (simp add: round_by_id_set_round_status)
  have same: "games (set_reveal_index d rid i) = games d"
    "game_players (set_reveal_index d rid i) = game_players d" for i
    by (simp_all add: set_reveal_index_def)
  have caller: "\<exists>r'. round_by_id (fst (revealNext fails d rid currentIndex totalItems)) rid = Some r'
             \<and> r_reveal_index r' \<le> int (length (topic_items_of_round d rid))
             \<and> (if currentIndex < totalItems
                 then r_reveal_index r' = r_reveal_index r + 1 \<and> r_status r' = r_status r
                 else r_reveal_index r' = r_reveal_index r \<and> r_status r' = complete)"
    if h: "r_reveal_index r = currentIndex \<and> int4 (r_reveal_index r)
          \<and> totalItems = int (length (topic_items_of_round d rid)) \<and> int4 totalItems
          \<and> currentIndex \<le> totalItems"
  proof (cases "currentIndex < totalItems")
    case True
    then have "int4 (currentIndex + 1)"
      using h by (auto simp: int4_def)
    with True h less r1 show ?thesis by auto
  next
    case False
    with h more r2 show ?thesis by auto
  qed
  show "snd (revealNext fails d rid currentIndex totalItems) = True
     \<and> (currentIndex + 1 \<le> totalItems \<longrightarrow>
          round_by_id (fst (revealNext fails d rid currentIndex totalItems)) rid =
            Some (if int4 (currentIndex + 1) then r\<lparr>r_reveal_index := currentIndex + 1\<rparr> else r)
          \<and> games (fst (revealNext fails d rid currentIndex totalItems)) = games d
          \<and> game_players (fst (revealNext fails d rid currentIndex totalItems)) = game_players d)
     \<and> (totalItems < currentIndex + 1 \<longrightarrow>
          fst (revealNext fails d rid currentIndex totalItems) =
            calculateScores fails (set_round_status d rid complete) rid
          \<and> round_by_id (fst (revealNext fails d rid currentIndex totalItems)) rid =
              Some (r\<lparr>r_status := complete\<rparr>))
     \<and> (r_reveal_index r = currentIndex \<and> int4 (r_reveal_index r)
          \<and> totalItems = int (length (topic_items_of_round d rid)) \<and> int4 totalItems
          \<and> currentIndex \<le> totalItems \<longrightarrow>
          (\<exists>r'. round_by_id (fst (revealNext fails d rid currentIndex totalItems)) rid = Some r'
             \<and> r_reveal_index r' \<le> int (length (topic_items_of_round d rid))
             \<and> (if currentIndex < totalItems
                 then r_reveal_index r' = r_reveal_index r + 1 \<and> r_status r' = r_status r
                 else r_reveal_index r' = r_reveal_index r \<and> r_status r' = complete)))"
  proof (intro conjI impI)
    show "snd (revealNext fails d rid currentIndex totalItems) = True"
      by (simp add: revealNext_def Let_def)
  next
    assume a: "currentIndex + 1 \<le> totalItems"
    show "round_by_id (fst (revealNext fails d rid currentIndex totalItems)) rid =
        Some (if int4 (currentIndex + 1) then r\<lparr>r_reveal_index := currentIndex + 1\<rparr> else r)"
      using less [OF a] r1 by simp
    show "games (fst (revealNext fails d rid currentIndex totalItems)) = games d"
      using less [OF a] same(1) by simp
    show "game_players (fst (revealNext fails d rid currentIndex totalItems)) = game_players d"
      using less [OF a] same(2) by simp
  next
    assume a: "totalItems < currentIndex + 1"
    show "fst (revealNext fails d rid currentIndex totalItems) =
        calculateScores fails (set_round_status d rid complete) rid"
      by (rule more [OF a])
    show "round_by_id (fst (revealNext fails d rid currentIndex totalItems)) rid =
        Some (r\<lparr>r_status := complete\<rparr>)"
      using more [OF a] r2 by simp
  next
    assume h: "r_reveal_index r = currentIndex \<and> int4 (r_reveal_index r)
          \<and> totalItems = int (length (topic_items_of_round d rid)) \<and> int4 totalItems
          \<and> currentIndex \<le> totalItems"
    show "\<exists>r'. round_by_id (fst (revealNext fails d rid currentIndex totalItems)) rid = Some r'
             \<and> r_reveal_index r' \<le> int (length (topic_items_of_round d rid))
             \<and> (if currentIndex < totalItems
                 then r_reveal_index r' = r_reveal_index r + 1 \<and> r_status r' = r_status r
                 else r_reveal_index r' = r_reveal_index r \<and> r_status r' = complete)"
      by (rule caller [OF h])
  qed
qed

theorem revealNext_by_arguments_witness:
  "round_by_id demo_db ''r1'' = Some demo_round
   \<and> r_reveal_index demo_round = 3 \<and> int (length (topic_items_of_round demo_db ''r1'')) = 3
   \<and> round_by_id (fst (revealNext no_failure demo_db ''r1'' 3 3)) ''r1'' =
       Some (demo_round\<lparr>r_status := complete\<rparr>)
   \<and> round_by_id (set_reveal_index demo_db ''r1'' 2) ''r1'' =
       Some (demo_round\<lparr>r_reveal_index := 2\<rparr>)
   \<and> round_by_id (fst (revealNext no_failure (set_reveal_index demo_db ''r1'' 2) ''r1'' 2 3)) ''r1'' =
       Some demo_round"
proof -
  let ?d2 = "set_reveal_index demo_db ''r1'' 2"
  let ?r2 = "demo_round\<lparr>r_reveal_index := 2\<rparr>"
  have r2: "round_by_id ?d2 ''r1'' = Some ?r2"
    by (simp add: round_by_id_set_reveal_index demo_lookup int4_def)
  have r3: "round_by_id demo_db ''r1'' = Some demo_round" "r_reveal_index demo_round = 3"
    "int (length (topic_items_of_round demo_db ''r1'')) = 3"
    by (simp_all add: demo_lookup demo_round_def demo_topic_items)
  have h3: "r_reveal_index demo_round = 3 \<and> int4 (r_reveal_index demo_round)
      \<and> 3 = int (length (topic_items_of_round demo_db ''r1'')) \<and> int4 3 \<and> (3::int) \<le> 3"
    by (simp add: demo_round_def demo_topic_items int4_def)
  have h2: "r_reveal_index ?r2 = 2 \<and> int4 (r_reveal_index ?r2)
      \<and> 3 = int (length (topic_items_of_round ?d2 ''r1'')) \<and> int4 3 \<and> (2::int) \<le> 3"
    by (simp add: demo_topic_items int4_def)
  have le: "(3::int) < 3 + 1" "(2::int) + 1 \<le> 3" "int4 (2 + 1)"
    by (simp_all add: int4_def)
  have s3: "round_by_id demo_db ''r1'' = Some demo_round \<and> safe_integer 3 \<and> safe_integer 3"
    using r3(1) by (simp add: safe_integer_def)
  have s2: "round_by_id ?d2 ''r1'' = Some ?r2 \<and> safe_integer 2 \<and> safe_integer 3"
    using r2 by (simp add: safe_integer_def)
  have a: "round_by_id (fst (revealNext no_failure demo_db ''r1'' 3 3)) ''r1'' =
       Some (demo_round\<lparr>r_status := complete\<rparr>)"
    using mp [OF revealNext_by_arguments [of demo_db "''r1''" demo_round 3 3 no_failure] s3] le(1) h3
    by blast
  have "round_by_id (fst (revealNext no_failure ?d2 ''r1'' 2 3)) ''r1'' =
       Some (if int4 (2 + 1) then ?r2\<lparr>r_reveal_index := 2 + 1\<rparr> else ?r2)"
    using mp [OF revealNext_by_arguments [of ?d2 "''r1''" ?r2 2 3 no_failure] s2] le(2) h2
    by blast
  then have b: "round_by_id (fst (revealNext no_failure ?d2 ''r1'' 2 3)) ''r1'' = Some demo_round"
    by (simp add: int4_def demo_round_def)
  show ?thesis using a b r2 r3 by simp
qed

theorem revealNext_trusts_caller_counterexample:
  "map_option r_status (round_by_id demo_db ''r1'') = Some revealing
   \<and> map_option r_reveal_index (round_by_id demo_db ''r1'') = Some 3
   \<and> length (topic_items_of_round demo_db ''r1'') = 3
   \<and> map_option r_reveal_index
        (round_by_id (fst (revealNext no_failure demo_db ''r1'' 3 10)) ''r1'') = Some 4
   \<and> map_option r_status
        (round_by_id (fst (revealNext no_failure demo_db ''r1'' 3 10)) ''r1'') = Some revealing
   \<and> game_players (fst (revealNext no_failure demo_db ''r1'' 3 10)) = game_players demo_db
   \<and> map_option r_reveal_index
        (round_by_id (fst (revealNext no_failure demo_db ''r1'' 0 3)) ''r1'') = Some 1"
  by code_simp

subsection \<open>The status of a game along a run\<close>

lemma status_of_cong: "games d' = games d \<Longrightarrow> status_of d' gid = status_of d gid"
  by (simp add: status_of_def game_by_id_def)

lemma status_of_set_game_status:
  "status_of (set_game_status d gid' s) gid =
     (if gid = gid' then map_option (\<lambda>_. s) (status_of d gid) else status_of d gid)"
  by (cases "gid = gid'"; cases "game_by_id d gid")
    (simp_all add: status_of_def game_by_id_set_game_status)

lemma status_of_set_current_vip [simp]:
  "status_of (set_current_vip d gid' v) gid = status_of d gid"
  by (cases "gid = gid'"; cases "game_by_id d gid")
    (simp_all add: status_of_def game_by_id_set_current_vip)

lemma single_Some_mem: "single xs = Some x \<Longrightarrow> x \<in> set xs"
  by (cases xs rule: single.cases) simp_all

lemma game_by_id_insert_game:
  assumes "insert_game d g = Some d1" and "game_by_id d gid = Some x"
  shows "game_by_id d1 gid = Some x"
proof -
  have "x \<in> set (filter (\<lambda>g. g_id g = gid) (games d))"
    using assms(2) unfolding game_by_id_def by (rule single_Some_mem)
  then have "gid \<in> set (map g_id (games d))" by auto
  moreover have "g_id g \<notin> set (map g_id (games d))" and "games d1 = games d @ [g]"
    using assms(1) by (auto simp: insert_game_def split: if_splits)
  ultimately show ?thesis
    using assms(2) by (auto simp: game_by_id_def)
qed

lemma games_insert_player: "insert_player d p = Some d1 \<Longrightarrow> games d1 = games d"
  by (auto simp: insert_player_def split: if_splits)

lemma status_of_createGame:
  "status_of d gid = Some s \<Longrightarrow>
   status_of (fst (createGame d newId rnd userId settings)) gid = Some s"
proof -
  assume a: "status_of d gid = Some s"
  then obtain x where x: "game_by_id d gid = Some x" "g_status x = s"
    by (auto simp: status_of_def)
  show ?thesis
  proof (cases "insert_game d (new_game newId (join_code rnd) userId settings)")
    case None
    then show ?thesis using a by (simp add: createGame_def Let_def)
  next
    case (Some d1)
    then have g1: "game_by_id d1 gid = Some x"
      using x(1) by (rule game_by_id_insert_game)
    then have s1: "status_of d1 gid = Some s"
      using x(2) by (simp add: status_of_def)
    let ?p = "\<lparr>gp_game_id = newId, gp_user_id = userId,
               gp_username = username_for d1 userId, gp_score = 0\<rparr>"
    show ?thesis
    proof (cases "insert_player d1 ?p")
      case None
      with Some s1 show ?thesis by (simp add: createGame_def Let_def)
    next
      case (Some d2)
      then have "status_of d2 gid = status_of d1 gid"
        by (intro status_of_cong games_insert_player)
      with Some \<open>insert_game d (new_game newId (join_code rnd) userId settings) = Some d1\<close> s1
      show ?thesis by (simp add: createGame_def Let_def)
    qed
  qed
qed

lemma games_joinGame: "games (fst (joinGame d code userId)) = games d"
  by (auto simp: joinGame_def split: option.splits dest: games_insert_player)

lemma games_selectTopic: "games (fst (selectTopic d newId gameId topicId vipId n)) = games d"
  by (auto simp: selectTopic_def insert_round_def Let_def split: option.splits if_splits)

lemma games_submitVIPRanking: "games (fst (submitVIPRanking d rid rs)) = games d"
  by (auto simp: submitVIPRanking_def insert_rankings_def set_round_status_def Let_def
      split: option.splits if_splits)

lemma games_submitGuess: "games (fst (submitGuess d rid uid gs)) = games d"
  by (auto simp: submitGuess_def insert_guesses_def Let_def split: option.splits if_splits)

lemma games_startReveal: "games (fst (startReveal d rid)) = games d"
  by (simp add: startReveal_def set_reveal_index_def set_round_status_def int4_def)

lemma status_of_revealNext:
  "status_of (fst (revealNext fails d rid ci n)) gid = status_of d gid
   \<or> status_of (fst (revealNext fails d rid ci n)) gid = Some finished"
proof -
  have "status_of (set_round_status d rid complete) gid = status_of d gid"
    by (rule status_of_cong) (simp add: set_round_status_def)
  moreover have "status_of (set_reveal_index d rid (ci + 1)) gid = status_of d gid"
    by (rule status_of_cong) (simp add: set_reveal_index_def)
  ultimately show ?thesis
    using status_of_calculateScores_other [of fails "set_round_status d rid complete" rid gid]
    by (auto simp: revealNext_def Let_def)
qed

lemma status_of_rotateVIP: "status_of (fst (rotateVIP d gid' players)) gid = status_of d gid"
  by (simp add: rotateVIP_def Let_def split: option.splits)

lemma status_of_step:
  assumes "status_of d gid = Some s"
  shows "status_of (step fails d a) gid = Some s
     \<or> status_of (step fails d a) gid = Some finished
     \<or> ((\<exists>vipId n. a = StartRound gid vipId n) \<and> status_of (step fails d a) gid = Some playing)"
proof (cases a)
  case (CreateGame newId rnd userId settings)
  then show ?thesis using assms by (simp add: status_of_createGame)
next
  case (JoinGame code userId)
  then show ?thesis using assms status_of_cong [OF games_joinGame] by simp
next
  case (StartRound gameId vipId n)
  then show ?thesis using assms by (auto simp: startRound_def status_of_set_game_status)
next
  case (SelectTopic newId gameId topicId vipId n)
  then show ?thesis using assms status_of_cong [OF games_selectTopic] by simp
next
  case (SubmitVIPRanking rid rs)
  then show ?thesis using assms status_of_cong [OF games_submitVIPRanking] by simp
next
  case (SubmitGuess rid uid gs)
  then show ?thesis using assms status_of_cong [OF games_submitGuess] by simp
next
  case (StartReveal rid)
  then show ?thesis using assms status_of_cong [OF games_startReveal] by simp
next
  case (RevealNext rid ci n)
  then show ?thesis using assms status_of_revealNext [of fails d rid ci n gid] by auto
next
  case (RotateVIP gameId players)
  then show ?thesis using assms by (simp add: status_of_rotateVIP)
next
  case (PassVIP gameId players)
  then show ?thesis using assms by (simp add: passVIP_def status_of_rotateVIP)
qed

lemma status_of_run:
  "status_of d gid = Some s \<Longrightarrow>
   \<exists>s'. status_of (run d as) gid = Some s' \<and> (s' = waiting \<longrightarrow> s = waiting)"
proof (induction as arbitrary: d s)
  case Nil
  then show ?case by simp
next
  case (Cons fa as)
  obtain fails a where fa: "fa = (fails, a)" by (cases fa)
  from status_of_step [OF Cons.prems, of fails a]
  obtain s1 where s1: "status_of (step fails d a) gid = Some s1" "s1 = waiting \<longrightarrow> s = waiting"
    by auto
  from Cons.IH [OF s1(1)] s1(2) show ?case
    by (auto simp: fa)
qed

text \<open>
  C6 (as amended). No action takes a game back to \<open>waiting\<close>: along every run of
  actions a game that has left \<open>waiting\<close> stays out of it. The only action that takes a
  game out of \<open>finished\<close> is \<open>startRound\<close> on that game, which sets the status to
  \<open>playing\<close> whatever it was; every other action, \<open>calculateScores\<close> included, keeps a
  finished game finished.
\<close>

theorem status_not_back_to_waiting:
  "status_of d gid = Some s \<longrightarrow>
     (\<exists>s'. status_of (run d as) gid = Some s' \<and> (s' = waiting \<longrightarrow> s = waiting))
     \<and> (\<exists>s'. status_of (step fails d a) gid = Some s'
            \<and> (s = finished \<and> s' \<noteq> finished \<longrightarrow>
                 (\<exists>vipId n. a = StartRound gid vipId n) \<and> s' = playing))"
proof
  assume a: "status_of d gid = Some s"
  show "(\<exists>s'. status_of (run d as) gid = Some s' \<and> (s' = waiting \<longrightarrow> s = waiting))
     \<and> (\<exists>s'. status_of (step fails d a) gid = Some s'
            \<and> (s = finished \<and> s' \<noteq> finished \<longrightarrow>
                 (\<exists>vipId n. a = StartRound gid vipId n) \<and> s' = playing))"
    using status_of_run [OF a, of as] status_of_step [OF a, of fails a] by auto
qed

theorem status_not_back_to_waiting_witness:
  "status_of demo_won_db ''g1'' = Some playing
   \<and> status_of (run demo_won_db
        [(no_failure, RevealNext ''r1'' 3 3), (no_failure, RotateVIP ''g1'' [''u1'', ''u2'', ''u3''])])
        ''g1'' \<noteq> Some waiting
   \<and> status_of (run demo_won_db
        [(no_failure, RevealNext ''r1'' 3 3), (no_failure, RotateVIP ''g1'' [''u1'', ''u2'', ''u3''])])
        ''g1'' \<noteq> None
   \<and> status_of demo_finished_db ''g1'' = Some finished
   \<and> status_of (step no_failure demo_finished_db (RevealNext ''r1'' 3 3)) ''g1'' = Some finished"
proof -
  let ?as = "[(no_failure, RevealNext ''r1'' 3 3), (no_failure, RotateVIP ''g1'' [''u1'', ''u2'', ''u3''])]"
  have p: "status_of demo_won_db ''g1'' = Some playing"
    by (simp add: status_of_def demo_won_lookup demo_game_def)
  have f: "status_of demo_finished_db ''g1'' = Some finished"
    by (simp add: status_of_def game_by_id_def demo_finished_db_def demo_game_def)
  have "status_of (run demo_won_db ?as) ''g1'' \<noteq> Some waiting
      \<and> status_of (run demo_won_db ?as) ''g1'' \<noteq> None"
    using mp [OF status_not_back_to_waiting [of demo_won_db "''g1''" playing ?as no_failure
          "RevealNext ''r1'' 3 3"] p]
    by auto
  moreover have "status_of (step no_failure demo_finished_db (RevealNext ''r1'' 3 3)) ''g1'' = Some finished"
    using mp [OF status_not_back_to_waiting [of demo_finished_db "''g1''" finished "[]" no_failure
          "RevealNext ''r1'' 3 3"] f]
    by auto
  ultimately show ?thesis using p f by simp
qed

theorem startRound_reopens_counterexample:
  "status_of demo_finished_db ''g1'' = Some finished
   \<and> startRound demo_finished_db ''g1'' ''u1'' 2 = (demo_db, True)
   \<and> status_of (step no_failure demo_finished_db (StartRound ''g1'' ''u1'' 2)) ''g1'' = Some playing"
  by (simp add: status_of_def game_by_id_def demo_finished_db_def demo_db_def demo_game_def
      startRound_def set_game_status_def)

subsection \<open>Rotation at the edges, and joining twice\<close>

text \<open>
  C10 (as amended). When the game's \<open>current_vip_id\<close> is null, \<open>rotateVIP\<close> returns
  false and changes nothing. When it is set but does not occur in a non-empty supplied
  list, the index -1 of the failed search wraps to 0 and the first player of the list
  becomes the VIP. With an empty list \<open>rotateVIP\<close> returns false and changes nothing.
\<close>

theorem rotateVIP_edge_cases:
  "(game_by_id d0 gid0 = Some g0 \<and> g_current_vip_id g0 = None \<longrightarrow>
      rotateVIP d0 gid0 players0 = (d0, False))
   \<and> (game_by_id d gid = Some g \<and> g_current_vip_id g = Some v \<and> v \<noteq> []
        \<and> v \<notin> set players \<and> players \<noteq> [] \<longrightarrow>
        rotateVIP d gid players = (set_current_vip d gid (hd players), True)
        \<and> vip_of (fst (rotateVIP d gid players)) gid = Some (hd players))
   \<and> rotateVIP d1 gid1 [] = (d1, False)"
proof (intro conjI impI)
  assume "game_by_id d0 gid0 = Some g0 \<and> g_current_vip_id g0 = None"
  then show "rotateVIP d0 gid0 players0 = (d0, False)"
    by (simp add: rotateVIP_def)
next
  assume a: "game_by_id d gid = Some g \<and> g_current_vip_id g = Some v \<and> v \<noteq> []
        \<and> v \<notin> set players \<and> players \<noteq> []"
  then have "findIndex (\<lambda>p. p = v) players = - 1"
    by (intro findIndex_absent) auto
  with a show r: "rotateVIP d gid players = (set_current_vip d gid (hd players), True)"
    by (simp add: rotateVIP_def Let_def hd_conv_nth)
  from a show "vip_of (fst (rotateVIP d gid players)) gid = Some (hd players)"
    by (simp add: r vip_of_set_current_vip)
next
  show "rotateVIP d1 gid1 [] = (d1, False)"
    by (simp add: rotateVIP_def Let_def split: option.splits)
qed

theorem rotateVIP_edge_cases_witness:
  "game_by_id demo_db ''g1'' = Some demo_game
   \<and> g_current_vip_id demo_game = Some ''u1''
   \<and> vip_of (fst (rotateVIP demo_db ''g1'' [''u2'', ''u3''])) ''g1'' = Some ''u2''
   \<and> game_by_id (demo_db\<lparr>games := [demo_game\<lparr>g_current_vip_id := None\<rparr>]\<rparr>) ''g1'' =
       Some (demo_game\<lparr>g_current_vip_id := None\<rparr>)
   \<and> rotateVIP (demo_db\<lparr>games := [demo_game\<lparr>g_current_vip_id := None\<rparr>]\<rparr>) ''g1''
       [''u1'', ''u2'', ''u3''] =
       (demo_db\<lparr>games := [demo_game\<lparr>g_current_vip_id := None\<rparr>]\<rparr>, False)"
proof -
  let ?g0 = "demo_game\<lparr>g_current_vip_id := None\<rparr>"
  let ?d0 = "demo_db\<lparr>games := [?g0]\<rparr>"
  note t = rotateVIP_edge_cases [of ?d0 "''g1''" ?g0 "[''u1'', ''u2'', ''u3'']"
      demo_db "''g1''" demo_game "''u1''" "[''u2'', ''u3'']" demo_db "''g1''"]
  have g0: "game_by_id ?d0 ''g1'' = Some ?g0"
    by (simp add: game_by_id_def demo_game_def)
  have h0: "game_by_id ?d0 ''g1'' = Some ?g0 \<and> g_current_vip_id ?g0 = None"
    using g0 by simp
  have h: "game_by_id demo_db ''g1'' = Some demo_game \<and> g_current_vip_id demo_game = Some ''u1''
      \<and> ''u1'' \<noteq> [] \<and> ''u1'' \<notin> set [''u2'', ''u3''] \<and> [''u2'', ''u3''] \<noteq> []"
    by (simp add: demo_lookup demo_game_def)
  have a: "rotateVIP ?d0 ''g1'' [''u1'', ''u2'', ''u3''] = (?d0, False)"
    using t h0 by blast
  have "vip_of (fst (rotateVIP demo_db ''g1'' [''u2'', ''u3''])) ''g1'' = Some (hd [''u2'', ''u3''])"
    using t h by blast
  then have b: "vip_of (fst (rotateVIP demo_db ''g1'' [''u2'', ''u3''])) ''g1'' = Some ''u2''"
    by simp
  show ?thesis using a b g0 h by simp
qed

theorem rotateVIP_empty_list_counterexample:
  "vip_of demo_db ''g1'' = Some ''u1''
   \<and> ''u1'' \<notin> set ([] :: uuid list)
   \<and> rotateVIP demo_db ''g1'' [] = (demo_db, False)"
  by (simp add: vip_of_def demo_lookup demo_game_def rotateVIP_def)





subsection \<open>The join code of a new game\<close>

lemma toUpperCase_alphabet:
  "list_all (\<lambda>c. upper_alnum (toUpperCase_char c)) ''0123456789abcdefghijklmnopqrstuvwxyz''"
  by code_simp

lemma toUpperCase_base36: "base36_digit c \<Longrightarrow> upper_alnum (toUpperCase_char c)"
  using toUpperCase_alphabet unfolding base36_digit_def list_all_iff by blast

lemma join_code_length: "length (join_code rnd) = min 6 (length rnd - 2)"
  by (simp add: join_code_def)

lemma join_code_chars:
  "list_all base36_digit (drop 2 rnd) \<Longrightarrow> list_all upper_alnum (join_code rnd)"
  unfolding join_code_def list_all_iff
  by (auto dest!: in_set_takeD intro: toUpperCase_base36)

lemma createGame_collision:
  "join_code rnd \<in> set (map g_code (games d)) \<Longrightarrow>
   createGame d newId rnd userId settings = (d, None)"
  by (simp add: createGame_def insert_game_def new_game_def Let_def)

lemma createGame_success:
  assumes "createGame d newId rnd userId settings = (d1, Some game)"
  shows "g_code game = join_code rnd \<and> g_code game \<notin> set (map g_code (games d))
     \<and> games d1 = games d @ [game] \<and> g_status game = waiting"
proof -
  let ?g = "new_game newId (join_code rnd) userId settings"
  from assms obtain d0 where i: "insert_game d ?g = Some d0" and g: "game = ?g"
    and p: "insert_player d0 \<lparr>gp_game_id = newId, gp_user_id = userId,
              gp_username = username_for d0 userId, gp_score = 0\<rparr> = Some d1"
    by (auto simp: createGame_def Let_def split: option.splits)
  from i have "g_code ?g \<notin> set (map g_code (games d))" and "games d0 = games d @ [?g]"
    by (auto simp: insert_game_def split: if_splits)
  moreover have "games d1 = games d0"
    using p by (rule games_insert_player)
  ultimately show ?thesis
    using g by (simp add: new_game_def)
qed

text \<open>
  C9 (as amended). The join code is the first six digits of the base-36 expansion after
  \<open>0.\<close>, in upper case: when the expansion has at least six digits, the code of a created
  game has exactly six upper-case alphanumeric characters. A created game's code differs
  from the code of every stored game, whatever its status. On a collision nothing is
  retried: \<open>createGame\<close> returns null and leaves the state as it was.
\<close>

theorem createGame_code:
  "(createGame d newId rnd userId settings = (d1, Some game) \<longrightarrow>
      g_code game = join_code rnd
      \<and> g_code game \<notin> set (map g_code (games d))
      \<and> (8 \<le> length rnd \<and> list_all base36_digit (drop 2 rnd) \<longrightarrow>
           length (g_code game) = 6 \<and> list_all upper_alnum (g_code game)))
   \<and> (join_code rnd0 \<in> set (map g_code (games d0)) \<longrightarrow>
        createGame d0 newId0 rnd0 userId0 settings0 = (d0, None))"
proof (intro conjI impI)
  assume a: "createGame d newId rnd userId settings = (d1, Some game)"
  from createGame_success [OF a]
  show "g_code game = join_code rnd" and "g_code game \<notin> set (map g_code (games d))"
    by blast+
next
  assume a: "createGame d newId rnd userId settings = (d1, Some game)"
    and b: "8 \<le> length rnd \<and> list_all base36_digit (drop 2 rnd)"
  from createGame_success [OF a] have c: "g_code game = join_code rnd" by simp
  from b show "length (g_code game) = 6"
    by (auto simp: c join_code_length)
  from b show "list_all upper_alnum (g_code game)"
    by (simp add: c join_code_chars)
next
  assume "join_code rnd0 \<in> set (map g_code (games d0))"
  then show "createGame d0 newId0 rnd0 userId0 settings0 = (d0, None)"
    by (rule createGame_collision)
qed

lemma demo_createGame:
  "createGame demo_db ''g2'' ''0.k3j9x2m7q1z'' ''u4'' default_settings =
     (demo_db\<lparr>games := [demo_game, new_game ''g2'' ''K3J9X2'' ''u4'' default_settings],
             game_players := demo_players @
               [\<lparr>gp_game_id = ''g2'', gp_user_id = ''u4'', gp_username = ''Dee'', gp_score = 0\<rparr>]\<rparr>,
      Some (new_game ''g2'' ''K3J9X2'' ''u4'' default_settings))"
  by (simp add: createGame_def insert_game_def insert_player_def username_for_def join_code_def
      toUpperCase_char_def new_game_def demo_db_def demo_game_def demo_players_def Let_def
      default_settings_def or_default_def int4_def)

theorem createGame_code_witness:
  "createGame demo_db ''g2'' ''0.k3j9x2m7q1z'' ''u4'' default_settings =
     (demo_db\<lparr>games := [demo_game, new_game ''g2'' ''K3J9X2'' ''u4'' default_settings],
             game_players := demo_players @
               [\<lparr>gp_game_id = ''g2'', gp_user_id = ''u4'', gp_username = ''Dee'', gp_score = 0\<rparr>]\<rparr>,
      Some (new_game ''g2'' ''K3J9X2'' ''u4'' default_settings))
   \<and> (8::nat) \<le> length ''0.k3j9x2m7q1z'' \<and> list_all base36_digit (drop 2 ''0.k3j9x2m7q1z'')
   \<and> length (g_code (new_game ''g2'' ''K3J9X2'' ''u4'' default_settings)) = 6
   \<and> list_all upper_alnum (g_code (new_game ''g2'' ''K3J9X2'' ''u4'' default_settings))
   \<and> join_code ''0.abc123k9x2'' \<in> set (map g_code (games demo_db))
   \<and> createGame demo_db ''g2'' ''0.abc123k9x2'' ''u4'' default_settings = (demo_db, None)"
proof -
  let ?g = "new_game ''g2'' ''K3J9X2'' ''u4'' default_settings"
  let ?d1 = "demo_db\<lparr>games := [demo_game, ?g],
             game_players := demo_players @
               [\<lparr>gp_game_id = ''g2'', gp_user_id = ''u4'', gp_username = ''Dee'', gp_score = 0\<rparr>]\<rparr>"
  note t = createGame_code [of demo_db "''g2''" "''0.k3j9x2m7q1z''" "''u4''" default_settings ?d1 ?g
      "''0.abc123k9x2''" demo_db "''g2''" "''u4''" default_settings]
  have h: "(8::nat) \<le> length ''0.k3j9x2m7q1z'' \<and> list_all base36_digit (drop 2 ''0.k3j9x2m7q1z'')"
    by (simp add: base36_digit_def)
  have c: "join_code ''0.abc123k9x2'' \<in> set (map g_code (games demo_db))"
    by (simp add: join_code_def toUpperCase_char_def demo_db_def demo_game_def)
  have a: "length (g_code ?g) = 6 \<and> list_all upper_alnum (g_code ?g)"
    using t demo_createGame h by blast
  have b: "createGame demo_db ''g2'' ''0.abc123k9x2'' ''u4'' default_settings = (demo_db, None)"
    using t c by blast
  show ?thesis using a b c h demo_createGame by blast
qed

theorem createGame_no_retry_counterexample:
  "join_code ''0.abc123k9x2'' = ''ABC123''
   \<and> g_code demo_game = ''ABC123''
   \<and> g_status demo_game = playing
   \<and> createGame demo_db ''g2'' ''0.abc123k9x2'' ''u4'' default_settings = (demo_db, None)
   \<and> join_code ''0.i'' = ''I''
   \<and> length (join_code ''0.i'') = 1"
  by (simp add: createGame_def insert_game_def new_game_def join_code_def toUpperCase_char_def
      demo_db_def demo_game_def Let_def)

subsection \<open>Submissions and the table constraints\<close>

lemma distinct_tagged: "distinct (map (\<lambda>p. (k, f p)) xs) = distinct (map f xs)"
  by (induction xs) auto

lemma distinct_tagged2: "distinct (map (\<lambda>p. (k, u, f p)) xs) = distinct (map f xs)"
  by (induction xs) auto

lemma insert_rankings_fresh:
  assumes "round_by_id d rid = Some r" and "rankings_of d rid = []"
    and "distinct (map (\<lambda>r. (rk_round_id r, rk_item_id r)) (rankings d))"
    and "distinct (map (\<lambda>r. (rk_round_id r, rk_position r)) (rankings d))"
    and "rs \<noteq> []"
  shows "insert_rankings d (ranking_rows rid rs) =
     (if distinct (map itemId rs) \<and> distinct (map position rs)
         \<and> set (map itemId rs) \<subseteq> set (map ti_id (topic_items d))
         \<and> list_all (\<lambda>p. int4 (position p)) rs
      then Some (d\<lparr>rankings := rankings d @ ranking_rows rid rs\<rparr>)
      else None)"
proof -
  have "r \<in> set (filter (\<lambda>r. r_id r = rid) (rounds d))"
    using assms(1) unfolding round_by_id_def by (rule single_Some_mem)
  then have known: "rid \<in> set (map r_id (rounds d))" by auto
  have none: "\<forall>x \<in> set (rankings d). rk_round_id x \<noteq> rid"
    using assms(2) by (simp add: rankings_of_def filter_empty_conv)
  have k1: "map (\<lambda>r. (rk_round_id r, rk_item_id r)) (ranking_rows rid rs) =
      map (\<lambda>p. (rid, itemId p)) rs"
    and k2: "map (\<lambda>r. (rk_round_id r, rk_position r)) (ranking_rows rid rs) =
      map (\<lambda>p. (rid, position p)) rs"
    by (simp_all add: ranking_rows_def)
  have d1: "set (map (\<lambda>r. (rk_round_id r, rk_item_id r)) (rankings d)) \<inter>
      set (map (\<lambda>p. (rid, itemId p)) rs) = {}"
    and d2: "set (map (\<lambda>r. (rk_round_id r, rk_position r)) (rankings d)) \<inter>
      set (map (\<lambda>p. (rid, position p)) rs) = {}"
    using none by auto
  have a: "list_all (\<lambda>r. rk_round_id r \<in> set (map r_id (rounds d))
                          \<and> rk_item_id r \<in> set (map ti_id (topic_items d))
                          \<and> int4 (rk_position r)) (ranking_rows rid rs)
      \<longleftrightarrow> set (map itemId rs) \<subseteq> set (map ti_id (topic_items d))
         \<and> list_all (\<lambda>p. int4 (position p)) rs"
    using known by (auto simp: ranking_rows_def list_all_iff)
  show ?thesis
    unfolding insert_rankings_def Let_def a
    using assms(3,4) d1 d2
    by (simp only: map_append distinct_append k1 k2 distinct_tagged) auto
qed

text \<open>
  C4 (as amended). A first, non-empty ranking for a round is rejected, with the value
  false and the state untouched, exactly when it names an item twice, uses a position
  twice, names an item that is in no topic, or gives a position that is no 32-bit
  integer. Every other submission is accepted, also one that leaves items of the round's
  topic out: its rows are inserted and the round moves to \<open>player_guessing\<close>.
\<close>

theorem submitVIPRanking_constraints:
  "round_by_id d rid = Some r \<and> rankings_of d rid = []
   \<and> distinct (map (\<lambda>r. (rk_round_id r, rk_item_id r)) (rankings d))
   \<and> distinct (map (\<lambda>r. (rk_round_id r, rk_position r)) (rankings d))
   \<and> rs \<noteq> [] \<longrightarrow>
     (if distinct (map itemId rs) \<and> distinct (map position rs)
         \<and> set (map itemId rs) \<subseteq> set (map ti_id (topic_items d))
         \<and> list_all (\<lambda>p. int4 (position p)) rs
      then submitVIPRanking d rid rs =
             (set_round_status (d\<lparr>rankings := rankings d @ ranking_rows rid rs\<rparr>) rid player_guessing,
              True)
           \<and> round_by_id (fst (submitVIPRanking d rid rs)) rid = Some (r\<lparr>r_status := player_guessing\<rparr>)
           \<and> rankings_of (fst (submitVIPRanking d rid rs)) rid = ranking_rows rid rs
      else submitVIPRanking d rid rs = (d, False))"
proof
  assume a: "round_by_id d rid = Some r \<and> rankings_of d rid = []
   \<and> distinct (map (\<lambda>r. (rk_round_id r, rk_item_id r)) (rankings d))
   \<and> distinct (map (\<lambda>r. (rk_round_id r, rk_position r)) (rankings d))
   \<and> rs \<noteq> []"
  then have i: "insert_rankings d (ranking_rows rid rs) =
     (if distinct (map itemId rs) \<and> distinct (map position rs)
         \<and> set (map itemId rs) \<subseteq> set (map ti_id (topic_items d))
         \<and> list_all (\<lambda>p. int4 (position p)) rs
      then Some (d\<lparr>rankings := rankings d @ ranking_rows rid rs\<rparr>)
      else None)"
    by (intro insert_rankings_fresh) auto
  have r: "round_by_id (d\<lparr>rankings := x\<rparr>) rid = Some r" for x
    using a by (simp add: round_by_id_def)
  have k: "rankings_of (set_round_status (d\<lparr>rankings := rankings d @ ranking_rows rid rs\<rparr>) rid s) rid
      = ranking_rows rid rs" for s
    using a by (simp add: rankings_of_def set_round_status_def ranking_rows_def filter_empty_conv)
  show "if distinct (map itemId rs) \<and> distinct (map position rs)
         \<and> set (map itemId rs) \<subseteq> set (map ti_id (topic_items d))
         \<and> list_all (\<lambda>p. int4 (position p)) rs
      then submitVIPRanking d rid rs =
             (set_round_status (d\<lparr>rankings := rankings d @ ranking_rows rid rs\<rparr>) rid player_guessing,
              True)
           \<and> round_by_id (fst (submitVIPRanking d rid rs)) rid = Some (r\<lparr>r_status := player_guessing\<rparr>)
           \<and> rankings_of (fst (submitVIPRanking d rid rs)) rid = ranking_rows rid rs
      else submitVIPRanking d rid rs = (d, False)"
    by (simp add: submitVIPRanking_def i round_by_id_set_round_status r k)
qed

lemma demo_ranking_hyps:
  "round_by_id demo_ranking_db ''r1'' = Some (demo_round\<lparr>r_status := vip_ranking, r_reveal_index := 0\<rparr>)
   \<and> rankings_of demo_ranking_db ''r1'' = []
   \<and> distinct (map (\<lambda>r. (rk_round_id r, rk_item_id r)) (rankings demo_ranking_db))
   \<and> distinct (map (\<lambda>r. (rk_round_id r, rk_position r)) (rankings demo_ranking_db))"
  by (simp add: demo_ranking_db_def demo_db_def round_by_id_def rankings_of_def demo_round_def)

theorem submitVIPRanking_constraints_witness:
  "round_by_id demo_ranking_db ''r1'' = Some (demo_round\<lparr>r_status := vip_ranking, r_reveal_index := 0\<rparr>)
   \<and> rankings_of demo_ranking_db ''r1'' = []
   \<and> round_by_id (fst (submitVIPRanking demo_ranking_db ''r1'' demo_submission)) ''r1'' =
       Some (demo_round\<lparr>r_status := player_guessing, r_reveal_index := 0\<rparr>)
   \<and> rankings_of (fst (submitVIPRanking demo_ranking_db ''r1'' demo_submission)) ''r1'' = demo_rankings
   \<and> submitVIPRanking demo_ranking_db ''r1''
       [\<lparr>itemId = ''a'', position = 0\<rparr>, \<lparr>itemId = ''b'', position = 0\<rparr>, \<lparr>itemId = ''c'', position = 2\<rparr>] =
       (demo_ranking_db, False)"
proof -
  let ?r = "demo_round\<lparr>r_status := vip_ranking, r_reveal_index := 0\<rparr>"
  let ?bad = "[\<lparr>itemId = ''a'', position = 0\<rparr>, \<lparr>itemId = ''b'', position = 0\<rparr>,
      \<lparr>itemId = ''c'', position = 2\<rparr>]"
  have ok: "distinct (map itemId demo_submission) \<and> distinct (map position demo_submission)
      \<and> set (map itemId demo_submission) \<subseteq> set (map ti_id (topic_items demo_ranking_db))
         \<and> list_all (\<lambda>p. int4 (position p)) demo_submission"
    by (simp add: demo_submission_def demo_ranking_db_def demo_db_def demo_items_def int4_def)
  have h1: "round_by_id demo_ranking_db ''r1'' = Some ?r \<and> rankings_of demo_ranking_db ''r1'' = []
      \<and> distinct (map (\<lambda>r. (rk_round_id r, rk_item_id r)) (rankings demo_ranking_db))
      \<and> distinct (map (\<lambda>r. (rk_round_id r, rk_position r)) (rankings demo_ranking_db))
      \<and> demo_submission \<noteq> []"
    using demo_ranking_hyps by (simp add: demo_submission_def)
  have h2: "round_by_id demo_ranking_db ''r1'' = Some ?r \<and> rankings_of demo_ranking_db ''r1'' = []
      \<and> distinct (map (\<lambda>r. (rk_round_id r, rk_item_id r)) (rankings demo_ranking_db))
      \<and> distinct (map (\<lambda>r. (rk_round_id r, rk_position r)) (rankings demo_ranking_db))
      \<and> ?bad \<noteq> []"
    using demo_ranking_hyps by simp
  have a: "round_by_id (fst (submitVIPRanking demo_ranking_db ''r1'' demo_submission)) ''r1'' =
        Some (?r\<lparr>r_status := player_guessing\<rparr>)
      \<and> rankings_of (fst (submitVIPRanking demo_ranking_db ''r1'' demo_submission)) ''r1'' =
        ranking_rows ''r1'' demo_submission"
    using mp [OF submitVIPRanking_constraints [of demo_ranking_db "''r1''" ?r demo_submission] h1]
    unfolding if_P [OF ok] by blast
  have nb: "\<not> (distinct (map itemId ?bad) \<and> distinct (map position ?bad)
      \<and> set (map itemId ?bad) \<subseteq> set (map ti_id (topic_items demo_ranking_db))
         \<and> list_all (\<lambda>p. int4 (position p)) ?bad)"
    by simp
  have b: "submitVIPRanking demo_ranking_db ''r1'' ?bad = (demo_ranking_db, False)"
    using mp [OF submitVIPRanking_constraints [of demo_ranking_db "''r1''" ?r ?bad] h2]
    unfolding if_not_P [OF nb] by blast
  have c: "ranking_rows ''r1'' demo_submission = demo_rankings"
    by (simp add: ranking_rows_def demo_submission_def demo_rankings_def)
  have e: "?r\<lparr>r_status := player_guessing\<rparr> = demo_round\<lparr>r_status := player_guessing, r_reveal_index := 0\<rparr>"
    by simp
  show ?thesis using a b c e demo_ranking_hyps by simp
qed

theorem incomplete_ranking_accepted_counterexample:
  "topic_items_of_round demo_ranking_db ''r1'' = [''a'', ''b'', ''c'']
   \<and> \<not> complete_ranking demo_ranking_db ''r1'' [\<lparr>itemId = ''a'', position = 0\<rparr>]
   \<and> rankings demo_ranking_db = []
   \<and> submitVIPRanking demo_ranking_db ''r1'' [\<lparr>itemId = ''a'', position = 0\<rparr>] =
       (demo_ranking_db
          \<lparr>rounds := [demo_round\<lparr>r_status := player_guessing, r_reveal_index := 0\<rparr>],
           rankings := [\<lparr>rk_round_id = ''r1'', rk_item_id = ''a'', rk_position = 0\<rparr>]\<rparr>,
        True)"
  by (simp add: topic_items_of_round_def complete_ranking_def round_by_id_def submitVIPRanking_def
      insert_rankings_def ranking_rows_def set_round_status_def demo_ranking_db_def demo_db_def
      demo_round_def demo_items_def int4_def Let_def)

lemma insert_guesses_fresh:
  assumes "round_by_id d rid = Some r"
    and "filter (\<lambda>g. gu_round_id g = rid \<and> gu_user_id g = uid) (guesses d) = []"
    and "distinct (map (\<lambda>g. (gu_round_id g, gu_user_id g, gu_item_id g)) (guesses d))"
    and "distinct (map (\<lambda>g. (gu_round_id g, gu_user_id g, gu_position g)) (guesses d))"
    and "gs \<noteq> []"
  shows "insert_guesses d (guessesWithCorrectness rks rid uid gs) =
     (if distinct (map itemId gs) \<and> distinct (map position gs)
         \<and> set (map itemId gs) \<subseteq> set (map ti_id (topic_items d))
         \<and> list_all (\<lambda>p. int4 (position p)) gs
      then Some (d\<lparr>guesses := guesses d @ guessesWithCorrectness rks rid uid gs\<rparr>)
      else None)"
proof -
  have "r \<in> set (filter (\<lambda>r. r_id r = rid) (rounds d))"
    using assms(1) unfolding round_by_id_def by (rule single_Some_mem)
  then have known: "rid \<in> set (map r_id (rounds d))" by auto
  have none: "\<forall>x \<in> set (guesses d). \<not> (gu_round_id x = rid \<and> gu_user_id x = uid)"
    using assms(2) by (simp add: filter_empty_conv)
  have k1: "map (\<lambda>g. (gu_round_id g, gu_user_id g, gu_item_id g)) (guessesWithCorrectness rks rid uid gs) =
      map (\<lambda>p. (rid, uid, itemId p)) gs"
    and k2: "map (\<lambda>g. (gu_round_id g, gu_user_id g, gu_position g)) (guessesWithCorrectness rks rid uid gs) =
      map (\<lambda>p. (rid, uid, position p)) gs"
    by (simp_all add: guessesWithCorrectness_def)
  have d1: "set (map (\<lambda>g. (gu_round_id g, gu_user_id g, gu_item_id g)) (guesses d)) \<inter>
      set (map (\<lambda>p. (rid, uid, itemId p)) gs) = {}"
    and d2: "set (map (\<lambda>g. (gu_round_id g, gu_user_id g, gu_position g)) (guesses d)) \<inter>
      set (map (\<lambda>p. (rid, uid, position p)) gs) = {}"
    using none by auto
  have a: "list_all (\<lambda>g. gu_round_id g \<in> set (map r_id (rounds d))
                          \<and> gu_item_id g \<in> set (map ti_id (topic_items d))
                          \<and> int4 (gu_position g))
        (guessesWithCorrectness rks rid uid gs)
      \<longleftrightarrow> set (map itemId gs) \<subseteq> set (map ti_id (topic_items d))
         \<and> list_all (\<lambda>p. int4 (position p)) gs"
    using known by (auto simp: guessesWithCorrectness_def list_all_iff)
  show ?thesis
    unfolding insert_guesses_def Let_def a
    using assms(3,4) d1 d2
    by (simp only: map_append distinct_append k1 k2 distinct_tagged2) auto
qed

lemma submitGuess_any_status:
  "submitGuess (set_round_status d rid' s) rid uid gs =
     (set_round_status (fst (submitGuess d rid uid gs)) rid' s, snd (submitGuess d rid uid gs))"
proof -
  have ids: "map r_id (map (\<lambda>r. if r_id r = rid' then r\<lparr>r_status := s\<rparr> else r) xs) = map r_id xs"
    for xs :: "round_row list"
    by (induction xs) auto
  show ?thesis
    by (simp add: submitGuess_def insert_guesses_def rankings_of_def set_round_status_def ids Let_def
        del: map_map)
qed

text \<open>
  C5 (as amended). \<open>submitGuess\<close> does not look at the status of the round: its outcome
  is the same for every status. A player's first, non-empty guess set for a round in any
  status is rejected, with the value false and no row created, exactly when it names an
  item twice, uses a position twice, names an item that is in no topic, or gives a
  position that is no 32-bit integer; otherwise one guess row per placement is created.
\<close>

theorem submitGuess_ignores_status:
  "submitGuess (set_round_status d0 rid0 s) rid1 uid0 gs0 =
     (set_round_status (fst (submitGuess d0 rid1 uid0 gs0)) rid0 s, snd (submitGuess d0 rid1 uid0 gs0))
   \<and> (round_by_id d rid = Some r
        \<and> filter (\<lambda>g. gu_round_id g = rid \<and> gu_user_id g = uid) (guesses d) = []
        \<and> distinct (map (\<lambda>g. (gu_round_id g, gu_user_id g, gu_item_id g)) (guesses d))
        \<and> distinct (map (\<lambda>g. (gu_round_id g, gu_user_id g, gu_position g)) (guesses d))
        \<and> gs \<noteq> [] \<longrightarrow>
        (if distinct (map itemId gs) \<and> distinct (map position gs)
            \<and> set (map itemId gs) \<subseteq> set (map ti_id (topic_items d))
         \<and> list_all (\<lambda>p. int4 (position p)) gs
         then submitGuess d rid uid gs =
                (d\<lparr>guesses := guesses d @ guessesWithCorrectness (rankings_of d rid) rid uid gs\<rparr>, True)
         else submitGuess d rid uid gs = (d, False)))"
proof (intro conjI impI)
  show "submitGuess (set_round_status d0 rid0 s) rid1 uid0 gs0 =
     (set_round_status (fst (submitGuess d0 rid1 uid0 gs0)) rid0 s, snd (submitGuess d0 rid1 uid0 gs0))"
    by (rule submitGuess_any_status)
next
  assume "round_by_id d rid = Some r
        \<and> filter (\<lambda>g. gu_round_id g = rid \<and> gu_user_id g = uid) (guesses d) = []
        \<and> distinct (map (\<lambda>g. (gu_round_id g, gu_user_id g, gu_item_id g)) (guesses d))
        \<and> distinct (map (\<lambda>g. (gu_round_id g, gu_user_id g, gu_position g)) (guesses d))
        \<and> gs \<noteq> []"
  then have "insert_guesses d (guessesWithCorrectness (rankings_of d rid) rid uid gs) =
     (if distinct (map itemId gs) \<and> distinct (map position gs)
         \<and> set (map itemId gs) \<subseteq> set (map ti_id (topic_items d))
         \<and> list_all (\<lambda>p. int4 (position p)) gs
      then Some (d\<lparr>guesses := guesses d @ guessesWithCorrectness (rankings_of d rid) rid uid gs\<rparr>)
      else None)"
    by (intro insert_guesses_fresh) auto
  then show "if distinct (map itemId gs) \<and> distinct (map position gs)
            \<and> set (map itemId gs) \<subseteq> set (map ti_id (topic_items d))
         \<and> list_all (\<lambda>p. int4 (position p)) gs
         then submitGuess d rid uid gs =
                (d\<lparr>guesses := guesses d @ guessesWithCorrectness (rankings_of d rid) rid uid gs\<rparr>, True)
         else submitGuess d rid uid gs = (d, False)"
    by (simp add: submitGuess_def)
qed

lemma demo_late_hyps:
  "round_by_id demo_late_db ''r1'' = Some demo_round
   \<and> filter (\<lambda>g. gu_round_id g = ''r1'' \<and> gu_user_id g = ''u3'') (guesses demo_late_db) = []
   \<and> distinct (map (\<lambda>g. (gu_round_id g, gu_user_id g, gu_item_id g)) (guesses demo_late_db))
   \<and> distinct (map (\<lambda>g. (gu_round_id g, gu_user_id g, gu_position g)) (guesses demo_late_db))
   \<and> demo_submission \<noteq> []"
  by (simp add: demo_late_db_def demo_db_def round_by_id_def demo_round_def demo_guesses_def
      demo_submission_def)

theorem submitGuess_ignores_status_witness:
  "round_by_id demo_late_db ''r1'' = Some demo_round
   \<and> r_status demo_round = revealing
   \<and> filter (\<lambda>g. gu_round_id g = ''r1'' \<and> gu_user_id g = ''u3'') (guesses demo_late_db) = []
   \<and> submitGuess demo_late_db ''r1'' ''u3'' demo_submission =
       (demo_late_db\<lparr>guesses := guesses demo_late_db @
          guessesWithCorrectness (rankings_of demo_late_db ''r1'') ''r1'' ''u3'' demo_submission\<rparr>, True)
   \<and> submitGuess (set_round_status demo_late_db ''r1'' complete) ''r1'' ''u3'' demo_submission =
       (set_round_status
          (demo_late_db\<lparr>guesses := guesses demo_late_db @
             guessesWithCorrectness (rankings_of demo_late_db ''r1'') ''r1'' ''u3'' demo_submission\<rparr>)
          ''r1'' complete, True)"
proof -
  note t = submitGuess_ignores_status [of demo_late_db "''r1''" complete "''r1''" "''u3''"
      demo_submission demo_late_db "''r1''" demo_round "''u3''" demo_submission]
  have ok: "distinct (map itemId demo_submission) \<and> distinct (map position demo_submission)
      \<and> set (map itemId demo_submission) \<subseteq> set (map ti_id (topic_items demo_late_db))
         \<and> list_all (\<lambda>p. int4 (position p)) demo_submission"
    by (simp add: demo_submission_def demo_late_db_def demo_db_def demo_items_def int4_def)
  have a: "submitGuess demo_late_db ''r1'' ''u3'' demo_submission =
       (demo_late_db\<lparr>guesses := guesses demo_late_db @
          guessesWithCorrectness (rankings_of demo_late_db ''r1'') ''r1'' ''u3'' demo_submission\<rparr>, True)"
    using mp [OF conjunct2 [OF t] demo_late_hyps] unfolding if_P [OF ok] .
  have b: "submitGuess (set_round_status demo_late_db ''r1'' complete) ''r1'' ''u3'' demo_submission =
      (set_round_status (fst (submitGuess demo_late_db ''r1'' ''u3'' demo_submission)) ''r1'' complete,
       snd (submitGuess demo_late_db ''r1'' ''u3'' demo_submission))"
    using conjunct1 [OF t] .
  have s: "r_status demo_round = revealing"
    by (simp add: demo_round_def)
  show ?thesis
    using demo_late_hyps s a b by simp
qed

theorem late_guess_accepted_counterexample:
  "round_by_id demo_late_db ''r1'' = Some demo_round
   \<and> r_status demo_round = revealing
   \<and> guessesOfUser (guesses_of demo_late_db ''r1'') ''u3'' = []
   \<and> snd (submitGuess demo_late_db ''r1'' ''u3'' demo_submission) = True
   \<and> length (guessesOfUser
        (guesses_of (fst (submitGuess demo_late_db ''r1'' ''u3'' demo_submission)) ''r1'') ''u3'') = 3
   \<and> map_option r_status (round_by_id (set_round_status demo_late_db ''r1'' complete) ''r1'') =
       Some complete
   \<and> snd (submitGuess (set_round_status demo_late_db ''r1'' complete) ''r1'' ''u3'' demo_submission) = True
   \<and> length (guessesOfUser
        (guesses_of (fst (submitGuess (set_round_status demo_late_db ''r1'' complete) ''r1'' ''u3''
           demo_submission)) ''r1'') ''u3'') = 3"
  by code_simp

subsection \<open>The score delta and the stored flags\<close>

lemma guesses_in_round_by_conv:
  "guessesOfUser (guesses_of d rid) u = guesses_in_round_by d rid u"
  by (simp add: guessesOfUser_def guesses_of_def guesses_in_round_by_def)

lemma scoreUpdates_expected:
  "map_of (scoreUpdates game (guesses_of d rid)) u =
     expected_delta game (guesses_in_round_by d rid u)"
proof -
  let ?mine = "guesses_in_round_by d rid u"
  have c: "correctCount (guesses_of d rid) u =
      length (filter (\<lambda>g. gu_is_correct g = Some True) ?mine)"
    by (simp add: correctCount_def truthy_def guesses_in_round_by_conv)
  have a: "list_all (\<lambda>g. gu_is_correct g = Some True) ?mine \<longleftrightarrow>
      correctCount (guesses_of d rid) u = length ?mine"
    using all_correct_iff [of "guesses_of d rid" u]
    by (simp add: truthy_def guesses_in_round_by_conv)
  have w: "list_all (\<lambda>g. gu_is_correct g \<noteq> Some True) ?mine \<longleftrightarrow>
      correctCount (guesses_of d rid) u = 0"
    using all_wrong_iff [of "guesses_of d rid" u]
    by (simp add: truthy_def guesses_in_round_by_conv)
  show ?thesis
    unfolding expected_delta_def a w
    by (simp add: map_of_scoreUpdates adjustment_def guesses_in_round_by_conv c)
qed

lemma flag_is_membership:
  "distinct (map (\<lambda>r. (rk_round_id r, rk_item_id r)) xs) \<Longrightarrow>
   is_correct_flag (filter (\<lambda>r. rk_round_id r = rid) xs) g =
     (\<lparr>rk_round_id = rid, rk_item_id = itemId g, rk_position = position g\<rparr> \<in> set xs)"
proof (induction xs)
  case Nil
  then show ?case by (simp add: is_correct_flag_def)
next
  case (Cons x xs)
  let ?row = "\<lparr>rk_round_id = rid, rk_item_id = itemId g, rk_position = position g\<rparr>"
  have ih: "is_correct_flag (filter (\<lambda>r. rk_round_id r = rid) xs) g = (?row \<in> set xs)"
    using Cons by simp
  show ?case
  proof (cases "rk_round_id x = rid \<and> rk_item_id x = itemId g")
    case True
    then have "(rid, itemId g) \<notin> set (map (\<lambda>r. (rk_round_id r, rk_item_id r)) xs)"
      using Cons.prems by auto
    then have "?row \<notin> set xs" by force
    moreover have "(x = ?row) = (rk_position x = position g)"
      using True by (cases x) auto
    ultimately show ?thesis
      using True by (auto simp: is_correct_flag_def)
  next
    case False
    then have "x \<noteq> ?row" by auto
    with False ih show ?thesis
      by (auto simp: is_correct_flag_def)
  qed
qed

lemma guesses_apply_updates [simp]: "guesses (apply_updates fails d gid ups) = guesses d"
  by (induction fails d gid ups rule: apply_updates.induct)
    (auto simp: set_score_def split: option.splits)

lemma guesses_calculateScores [simp]: "guesses (calculateScores fails d rid) = guesses d"
  by (simp add: calculateScores_def set_game_status_def Let_def split: option.splits)

lemma guesses_insert_player: "insert_player d p = Some d1 \<Longrightarrow> guesses d1 = guesses d"
  by (auto simp: insert_player_def split: if_splits)

lemma guesses_insert_game: "insert_game d g = Some d1 \<Longrightarrow> guesses d1 = guesses d"
  by (auto simp: insert_game_def split: if_splits)

lemma guesses_createGame: "guesses (fst (createGame d newId rnd userId settings)) = guesses d"
  by (auto simp: createGame_def Let_def split: option.splits
      dest!: guesses_insert_player guesses_insert_game)

lemma guesses_joinGame: "guesses (fst (joinGame d code userId)) = guesses d"
  by (auto simp: joinGame_def split: option.splits dest: guesses_insert_player)

lemma guesses_selectTopic: "guesses (fst (selectTopic d newId gameId topicId vipId n)) = guesses d"
  by (auto simp: selectTopic_def insert_round_def Let_def split: option.splits if_splits)

lemma guesses_submitVIPRanking: "guesses (fst (submitVIPRanking d rid rs)) = guesses d"
  by (auto simp: submitVIPRanking_def insert_rankings_def set_round_status_def Let_def
      split: option.splits if_splits)

lemma guesses_submitGuess: "\<exists>new. guesses (fst (submitGuess d rid uid gs)) = guesses d @ new"
  by (auto simp: submitGuess_def insert_guesses_def Let_def split: option.splits if_splits)

lemma guesses_revealNext: "guesses (fst (revealNext fails d rid ci n)) = guesses d"
  by (simp add: revealNext_def set_round_status_def set_reveal_index_def Let_def)

lemma guesses_rotateVIP: "guesses (fst (rotateVIP d gid players)) = guesses d"
  by (simp add: rotateVIP_def set_current_vip_def Let_def split: option.splits)

lemma guesses_step: "\<exists>new. guesses (step fails d a) = guesses d @ new"
proof (cases a)
  case (SubmitGuess rid uid gs)
  then show ?thesis using guesses_submitGuess [of d rid uid gs] by simp
qed (simp_all add: guesses_createGame guesses_joinGame guesses_selectTopic
    guesses_submitVIPRanking guesses_revealNext guesses_rotateVIP passVIP_def
    startRound_def startReveal_def set_game_status_def set_round_status_def
    set_reveal_index_def)

text \<open>
  C1 (as amended). The score delta that \<open>calculateScores\<close> computes for a player of a
  round is the number of that player's guess rows flagged correct times
  \<open>points_per_correct\<close>, plus the bonus when every one of them is flagged correct, else
  plus the penalty when none is, and nothing more when some are; a player without guess
  rows for the round has no entry, and the delta is what a successful write adds to the
  score. The flag of a guess row is set when the guess is submitted, to whether the
  rankings table then holds the guessed position for the same item of the round, and no
  action changes a stored guess row afterwards.
\<close>

theorem score_delta_from_stored_flags:
  "map_of (scoreUpdates game (guesses_of d rid)) u =
     expected_delta game (guesses_in_round_by d rid u)
   \<and> (round_by_id d rid = Some r \<and> game_by_id d (r_game_id r) = Some game
        \<and> player_of d (r_game_id r) u = Some p \<and> \<not> fails u \<longrightarrow>
        score_of (calculateScores fails d rid) (r_game_id r) u =
          Some (gp_score p
                + (case expected_delta game (guesses_in_round_by d rid u) of
                     None \<Rightarrow> 0
                   | Some c \<Rightarrow> c)))
   \<and> (submitGuess d0 rid0 uid ps = (d1, True)
        \<and> distinct (map (\<lambda>r. (rk_round_id r, rk_item_id r)) (rankings d0)) \<longrightarrow>
        guesses d1 = guesses d0 @
          map (\<lambda>g. \<lparr>gu_round_id = rid0, gu_user_id = uid, gu_item_id = itemId g,
                    gu_position = position g,
                    gu_is_correct =
                      Some (\<lparr>rk_round_id = rid0, rk_item_id = itemId g,
                             rk_position = position g\<rparr> \<in> set (rankings d0))\<rparr>) ps)
   \<and> (\<exists>new. guesses (step fails1 d2 a) = guesses d2 @ new)"
proof (intro conjI impI)
  show "map_of (scoreUpdates game (guesses_of d rid)) u =
     expected_delta game (guesses_in_round_by d rid u)"
    by (rule scoreUpdates_expected)
next
  assume h: "round_by_id d rid = Some r \<and> game_by_id d (r_game_id r) = Some game
        \<and> player_of d (r_game_id r) u = Some p \<and> \<not> fails u"
  have "entry (scoreUpdates game (guesses_of d rid)) u =
      (case expected_delta game (guesses_in_round_by d rid u) of None \<Rightarrow> 0 | Some c \<Rightarrow> c)"
    by (simp add: entry_def scoreUpdates_expected)
  with h calculateScores_player [of d rid r game u p fails]
  show "score_of (calculateScores fails d rid) (r_game_id r) u =
          Some (gp_score p
                + (case expected_delta game (guesses_in_round_by d rid u) of
                     None \<Rightarrow> 0
                   | Some c \<Rightarrow> c))"
    by (simp add: score_of_def)
next
  assume h: "submitGuess d0 rid0 uid ps = (d1, True)
        \<and> distinct (map (\<lambda>r. (rk_round_id r, rk_item_id r)) (rankings d0))"
  then have "insert_guesses d0 (guessesWithCorrectness (rankings_of d0 rid0) rid0 uid ps) = Some d1"
    by (simp add: submitGuess_def split: option.splits)
  then have "guesses d1 = guesses d0 @ guessesWithCorrectness (rankings_of d0 rid0) rid0 uid ps"
    by (auto simp: insert_guesses_def Let_def split: if_splits)
  moreover have "is_correct_flag (rankings_of d0 rid0) g =
      (\<lparr>rk_round_id = rid0, rk_item_id = itemId g, rk_position = position g\<rparr> \<in> set (rankings d0))"
    for g
    unfolding rankings_of_def using h by (intro flag_is_membership) simp
  ultimately show "guesses d1 = guesses d0 @
          map (\<lambda>g. \<lparr>gu_round_id = rid0, gu_user_id = uid, gu_item_id = itemId g,
                    gu_position = position g,
                    gu_is_correct =
                      Some (\<lparr>rk_round_id = rid0, rk_item_id = itemId g,
                             rk_position = position g\<rparr> \<in> set (rankings d0))\<rparr>) ps"
    by (simp add: guessesWithCorrectness_def)
next
  show "\<exists>new. guesses (step fails1 d2 a) = guesses d2 @ new"
    by (rule guesses_step)
qed

lemma demo_expected_u2:
  "expected_delta demo_game (guesses_in_round_by demo_db ''r1'' ''u2'') = Some 500"
  by code_simp

lemma demo_guessing_distinct:
  "distinct (map (\<lambda>r. (rk_round_id r, rk_item_id r)) (rankings demo_guessing_db))"
  by code_simp

theorem score_delta_from_stored_flags_witness:
  "map_of (scoreUpdates demo_game (guesses_of demo_db ''r1'')) ''u2'' = Some 500
   \<and> round_by_id demo_db ''r1'' = Some demo_round
   \<and> game_by_id demo_db (r_game_id demo_round) = Some demo_game
   \<and> \<not> no_failure ''u2''
   \<and> score_of (calculateScores no_failure demo_db ''r1'') ''g1'' ''u2'' = Some 500
   \<and> submitGuess demo_guessing_db ''r1'' ''u2'' demo_submission =
       (demo_guessing_db\<lparr>guesses := take 3 demo_guesses\<rparr>, True)
   \<and> map gu_is_correct (guesses (demo_guessing_db\<lparr>guesses := take 3 demo_guesses\<rparr>)) =
       [Some True, Some True, Some True]"
proof -
  let ?p = "\<lparr>gp_game_id = ''g1'', gp_user_id = ''u2'', gp_username = ''Bob'', gp_score = 0\<rparr>"
  let ?d1 = "demo_guessing_db\<lparr>guesses := take 3 demo_guesses\<rparr>"
  note t = score_delta_from_stored_flags [of demo_game demo_db "''r1''" "''u2''" demo_round ?p
      no_failure demo_guessing_db "''r1''" "''u2''" demo_submission ?d1 no_failure demo_db
      "StartReveal ''r1''"]
  have a: "map_of (scoreUpdates demo_game (guesses_of demo_db ''r1'')) ''u2'' = Some 500"
    using conjunct1 [OF t] by (simp add: demo_expected_u2)
  have h: "round_by_id demo_db ''r1'' = Some demo_round
      \<and> game_by_id demo_db (r_game_id demo_round) = Some demo_game
      \<and> player_of demo_db (r_game_id demo_round) ''u2'' = Some ?p \<and> \<not> no_failure ''u2''"
    by (simp add: demo_lookup demo_player_u2 no_failure_def)
  have "score_of (calculateScores no_failure demo_db ''r1'') (r_game_id demo_round) ''u2'' =
      Some (gp_score ?p + (case expected_delta demo_game (guesses_in_round_by demo_db ''r1'' ''u2'') of
                             None \<Rightarrow> 0 | Some c \<Rightarrow> c))"
    using mp [OF conjunct1 [OF conjunct2 [OF t]] h] .
  then have c: "score_of (calculateScores no_failure demo_db ''r1'') ''g1'' ''u2'' = Some 500"
    by (simp add: demo_expected_u2 demo_lookup)
  have s: "submitGuess demo_guessing_db ''r1'' ''u2'' demo_submission = (?d1, True)
      \<and> distinct (map (\<lambda>r. (rk_round_id r, rk_item_id r)) (rankings demo_guessing_db))"
    using demo_submitGuess demo_guessing_distinct by simp
  have "guesses ?d1 = guesses demo_guessing_db @
          map (\<lambda>g. \<lparr>gu_round_id = ''r1'', gu_user_id = ''u2'', gu_item_id = itemId g,
                    gu_position = position g,
                    gu_is_correct =
                      Some (\<lparr>rk_round_id = ''r1'', rk_item_id = itemId g,
                             rk_position = position g\<rparr> \<in> set (rankings demo_guessing_db))\<rparr>)
            demo_submission"
    using mp [OF conjunct1 [OF conjunct2 [OF conjunct2 [OF t]]] s] .
  then have f: "map gu_is_correct (guesses ?d1) = [Some True, Some True, Some True]"
    by (simp add: demo_guessing_db_def demo_submission_def demo_db_def demo_rankings_def)
  show ?thesis using a c f h s by simp
qed

theorem early_guess_flagged_wrong_counterexample:
  "map r_status (rounds (run demo_ranking_db demo_early_guess_run)) = [complete]
   \<and> map rk_round_id (rankings (run demo_ranking_db demo_early_guess_run)) = [''r1'', ''r1'', ''r1'']
   \<and> map rk_item_id (rankings (run demo_ranking_db demo_early_guess_run)) = [''a'', ''b'', ''c'']
   \<and> map rk_position (rankings (run demo_ranking_db demo_early_guess_run)) = [0, 1, 2]
   \<and> map gu_round_id (guesses (run demo_ranking_db demo_early_guess_run)) = [''r1'', ''r1'', ''r1'']
   \<and> map gu_user_id (guesses (run demo_ranking_db demo_early_guess_run)) = [''u2'', ''u2'', ''u2'']
   \<and> map gu_item_id (guesses (run demo_ranking_db demo_early_guess_run)) = [''a'', ''b'', ''c'']
   \<and> map gu_position (guesses (run demo_ranking_db demo_early_guess_run)) = [0, 1, 2]
   \<and> map gu_is_correct (guesses (run demo_ranking_db demo_early_guess_run)) =
       [Some False, Some False, Some False]
   \<and> score_of demo_ranking_db ''g1'' ''u2'' = Some 0
   \<and> score_of (run demo_ranking_db demo_early_guess_run) ''g1'' ''u2'' = Some (- 50)"
  by code_simp

end
